theory Spec2Isabelle
  imports Complex_Main "HOL-Library.AList" "HOL-Library.Signed_Division"
begin

section \<open>The AgriGuard contract: data model\<close>

text \<open>
  The contract is the class \<open>AgriGuardContract\<close> (a NEAR contract written with near-sdk-js).
  Modelling conventions:
  \<^item> token amounts are decimal strings fed to \<open>BigInt\<close> in the source; they are the \<open>int\<close>
    they denote, and \<open>BigInt\<close> division (which truncates towards zero) is \<open>sdiv\<close>;
  \<^item> JavaScript numbers (coordinates, temperatures, rainfall) are \<open>rat\<close>: every finite double
    is a rational and the source only compares them, apart from the premium rate, where the
    two products \<open>Math.floor(rate * multiplier)\<close> give the same integer in double and in exact
    arithmetic for every entry of the two multiplier tables;
  \<^item> a date string is the instant \<open>new Date(s).getTime()\<close> it parses to, in milliseconds,
    \<open>None\<close> when that is \<open>NaN\<close>;
  \<^item> a \<open>LookupMap\<close> is an association list in insertion order: \<open>get\<close> is \<open>map_of\<close>,
    \<open>set\<close> replaces the entry of a stored key in place and appends a new key; the
    SDK's \<open>LookupMap\<close> has no iterator, and nothing here iterates one;
  \<^item> a failed \<open>assert\<close> or a thrown \<open>Error\<close> aborts the call: the model returns \<open>Inl\<close> of
    the error and the caller keeps the state it had (the runtime rolls the call back);
  \<^item> the counters \<open>totalPolicies\<close> and \<open>totalClaims\<close> are \<open>nat\<close> (the source's
    numbers count exactly up to \<open>2^53\<close>);
  \<^item> \<open>near.log\<close> is not modelled; the \<open>ft_transfer\<close> promise that \<open>triggerPayout\<close>
    schedules is recorded in the field \<open>payouts\<close>.
\<close>

type_synonym AccountId = string
type_synonym DateString = "int option"
type_synonym 'v LookupMap = "(string \<times> 'v) list"

definition lm_get :: "'v LookupMap \<Rightarrow> string \<Rightarrow> 'v option" where
  "lm_get m k = map_of m k"

definition lm_set :: "'v LookupMap \<Rightarrow> string \<Rightarrow> 'v \<Rightarrow> 'v LookupMap" where
  "lm_set m k v = AList.update k v m"

definition USDC_CONTRACT :: AccountId where
  "USDC_CONTRACT = ''usdc.fakes.testnet''"

definition BASIS_POINTS :: int where
  "BASIS_POINTS = 10000"

definition MIN_PREMIUM_USDC :: int where
  "MIN_PREMIUM_USDC = 1000000"

definition MAX_COVERAGE_USDC :: int where
  "MAX_COVERAGE_USDC = 1000000000000"

definition DEFAULT_PREMIUM_RATE :: int where
  "DEFAULT_PREMIUM_RATE = 500"

record Location =
  lat :: rat
  lng :: rat

record WeatherParameters =
  minTemp :: rat
  maxTemp :: rat
  minRainfall :: rat
  maxRainfall :: rat

record PayoutTrigger =
  triggeredAt :: string
  actualRainfall :: rat
  expectedRainfall :: rat
  weatherCid :: string

text \<open>
  \<open>InsurancePolicy\<close>: the field \<open>status\<close> is a string, as at run time (the union type of
  the source is erased, and \<open>update_policy_status\<close> stores a string it does not check).
  The class has no \<open>stationId\<close> property.
\<close>

record InsurancePolicy =
  policyId :: string
  farmer :: AccountId
  cropType :: string
  farmLocation :: Location
  coverageAmount :: int
  premium :: int
  startDate :: DateString
  endDate :: DateString
  weatherParameters :: WeatherParameters
  isActive :: bool
  claimsPaid :: int
  premiumPaid :: int
  status :: string
  weatherDataCids :: "string list"
  payoutTrigger :: "PayoutTrigger option"

record WeatherData =
  stationId :: string
  timestamp :: string
  temperature :: rat
  rainfall :: rat
  humidity :: rat
  windSpeed :: rat
  filecoinCid :: "string option"

datatype ClaimStatus = ClaimPending | Approved | Rejected | Paid

text \<open>\<open>Claim\<close>: the fields \<open>policyId\<close>, \<open>farmer\<close>, \<open>status\<close> and \<open>timestamp\<close> of the source
  carry the prefix \<open>claim_\<close> here, record fields being global names.\<close>

record Claim =
  claimId :: string
  claim_policyId :: string
  claim_farmer :: AccountId
  claimAmount :: int
  reason :: string
  weatherData :: WeatherData
  claim_status :: ClaimStatus
  claim_timestamp :: string

record State =
  policies :: "InsurancePolicy LookupMap"
  claims :: "Claim LookupMap"
  authorizedOracles :: "bool LookupMap"
  weatherDataStorage :: "WeatherData LookupMap"
  totalPolicies :: nat
  totalClaims :: nat
  totalPremiumsCollected :: int
  totalClaimsPaid :: int
  owner :: AccountId
  payouts :: "(AccountId \<times> int) list"

text \<open>What a call reads from the runtime: \<open>near.predecessorAccountId()\<close>,
  \<open>near.currentAccountId()\<close>, \<open>near.blockTimestamp()\<close> and \<open>new Date().getTime()\<close>.\<close>

record Context =
  predecessor :: AccountId
  currentAccountId :: AccountId
  blockTimestamp :: nat
  now :: int

datatype error =
    COVERAGE_AMOUNT_TOO_LOW
  | COVERAGE_AMOUNT_TOO_HIGH
  | InvalidCropType
  | InvalidLatitude
  | InvalidLongitude
  | InvalidTemperatureRange
  | InvalidRainfallRange
  | TemperatureOutOfReasonableRange
  | RainfallOutOfReasonableRange
  | StartDateMustBeInTheFuture
  | EndDateMustBeAfterStartDate
  | DurationBelow30Days
  | DurationAbove365Days
  | OnlyUsdcCanCallFtOnTransfer
  | OnlyAuthorizedOracles
  | PolicyNotFound
  | OnlyPolicyOwnerCanFileClaims
  | PolicyIsNotActive
  | OnlyContractCanTriggerPayouts
  | OnlyOwnerCanTriggerManualPayouts
  | ClaimNotFound
  | ClaimNotApproved
  | OnlyOwnerCanAddOracles
  | OnlyOwnerCanRemoveOracles
  | PolicyIsNotPending
  | PoliciesNotIterable

text \<open>The constructor, then \<open>init\<close>.\<close>

definition constructor :: State where
  "constructor = \<lparr>policies = [], claims = [], authorizedOracles = [], weatherDataStorage = [],
     totalPolicies = 0, totalClaims = 0, totalPremiumsCollected = 0, totalClaimsPaid = 0,
     owner = [], payouts = []\<rparr>"

definition init :: "AccountId \<Rightarrow> State \<Rightarrow> State" where
  "init own s = s\<lparr>owner := own,
     authorizedOracles := lm_set (authorizedOracles s) ''weather-oracle.testnet'' True\<rparr>"

section \<open>Strings: lower case and decimal numerals\<close>

text \<open>\<open>String.prototype.toLowerCase\<close> on the ASCII letters.\<close>

definition lower_char :: "char \<Rightarrow> char" where
  "lower_char c = (let n = (of_char c :: nat) in if 65 \<le> n \<and> n \<le> 90 then char_of (n + 32) else c)"

definition toLowerCase :: "string \<Rightarrow> string" where
  "toLowerCase s = map lower_char s"

text \<open>The decimal numeral of a natural number, as a template literal prints it.\<close>

definition digit :: "nat \<Rightarrow> char" where
  "digit d = char_of (48 + d)"

fun decimal :: "nat \<Rightarrow> string" where
  "decimal n = (if n < 10 then [digit n] else decimal (n div 10) @ [digit (n mod 10)])"

declare decimal.simps [simp del]

section \<open>Policy creation\<close>

definition validCrops :: "string list" where
  "validCrops = [''wheat'', ''corn'', ''rice'', ''soybeans'', ''cotton'', ''barley'', ''oats'',
     ''tomatoes'', ''potatoes'', ''onions'']"

text \<open>\<open>validatePolicyInputs\<close>: the assertions of the source, in its order. A comparison with
  the \<open>NaN\<close> of an unparseable date is false, so that date fails the first assertion that
  reads it.\<close>

definition validatePolicyInputs ::
  "Context \<Rightarrow> string \<Rightarrow> Location \<Rightarrow> int \<Rightarrow> DateString \<Rightarrow> DateString \<Rightarrow> WeatherParameters
     \<Rightarrow> error + unit" where
  "validatePolicyInputs ctx crop loc coverage startD endD wp =
    (if \<not> coverage \<ge> MIN_PREMIUM_USDC then Inl COVERAGE_AMOUNT_TOO_LOW
     else if \<not> coverage \<le> MAX_COVERAGE_USDC then Inl COVERAGE_AMOUNT_TOO_HIGH
     else if \<not> toLowerCase crop \<in> set validCrops then Inl InvalidCropType
     else if \<not> (lat loc \<ge> -90 \<and> lat loc \<le> 90) then Inl InvalidLatitude
     else if \<not> (lng loc \<ge> -180 \<and> lng loc \<le> 180) then Inl InvalidLongitude
     else if \<not> minTemp wp < maxTemp wp then Inl InvalidTemperatureRange
     else if \<not> minRainfall wp < maxRainfall wp then Inl InvalidRainfallRange
     else if \<not> (minTemp wp \<ge> -50 \<and> maxTemp wp \<le> 60) then Inl TemperatureOutOfReasonableRange
     else if \<not> (minRainfall wp \<ge> 0 \<and> maxRainfall wp \<le> 5000) then Inl RainfallOutOfReasonableRange
     else (case startD of
        None \<Rightarrow> Inl StartDateMustBeInTheFuture
      | Some start \<Rightarrow>
         if \<not> start \<ge> now ctx then Inl StartDateMustBeInTheFuture
         else (case endD of
            None \<Rightarrow> Inl EndDateMustBeAfterStartDate
          | Some en \<Rightarrow>
             if \<not> en > start then Inl EndDateMustBeAfterStartDate
             else if \<not> en - start \<ge> 30 * 24 * 60 * 60 * 1000 then Inl DurationBelow30Days
             else if \<not> en - start \<le> 365 * 24 * 60 * 60 * 1000 then Inl DurationAbove365Days
             else Inr ())))"

definition calculateGeographicalRisk :: "Location \<Rightarrow> rat" where
  "calculateGeographicalRisk loc =
    (let l = \<bar>lat loc\<bar> in
     if l < 10 then 13 / 10
     else if l < 47 / 2 then 12 / 10
     else if l < 35 then 1
     else if l < 50 then 11 / 10
     else 12 / 10)"

definition cropRiskMultipliers :: "(string \<times> rat) list" where
  "cropRiskMultipliers = [(''wheat'', 1), (''corn'', 12 / 10), (''rice'', 15 / 10),
     (''soybeans'', 11 / 10), (''cotton'', 13 / 10), (''barley'', 1), (''oats'', 1),
     (''tomatoes'', 14 / 10), (''potatoes'', 12 / 10), (''onions'', 12 / 10), (''default'', 1)]"

text \<open>\<open>calculatePremium\<close>. A crop that is not a key of the table takes the entry
  \<open>default\<close> (the source's \<open>||\<close>; no entry is zero).\<close>

definition calculatePremium :: "int \<Rightarrow> string \<Rightarrow> Location \<Rightarrow> int" where
  "calculatePremium coverage crop loc =
    (let baseAmount = coverage;
         multiplier = (case map_of cropRiskMultipliers (toLowerCase crop) of
                         Some m \<Rightarrow> m | None \<Rightarrow> 1);
         premiumRate = \<lfloor>of_int DEFAULT_PREMIUM_RATE * multiplier\<rfloor>;
         geographicalRisk = calculateGeographicalRisk loc;
         premiumRate' = \<lfloor>of_int premiumRate * geographicalRisk\<rfloor>;
         prem = (baseAmount * premiumRate') sdiv BASIS_POINTS
     in if prem < MIN_PREMIUM_USDC then MIN_PREMIUM_USDC else prem)"

definition policy_key :: "nat \<Rightarrow> string" where
  "policy_key n = ''policy_'' @ decimal n"

definition claim_key :: "nat \<Rightarrow> string" where
  "claim_key n = ''claim_'' @ decimal n"

definition createPolicy ::
  "Context \<Rightarrow> string \<Rightarrow> Location \<Rightarrow> int \<Rightarrow> DateString \<Rightarrow> DateString \<Rightarrow> WeatherParameters
     \<Rightarrow> State \<Rightarrow> error + (string \<times> State)" where
  "createPolicy ctx crop loc coverage startD endD wp s =
    (case validatePolicyInputs ctx crop loc coverage startD endD wp of
       Inl e \<Rightarrow> Inl e
     | Inr _ \<Rightarrow>
        (let prem = calculatePremium coverage crop loc;
             pid = policy_key (totalPolicies s + 1);
             policy = \<lparr>policyId = pid, farmer = predecessor ctx, cropType = crop,
               farmLocation = loc, coverageAmount = coverage, premium = prem,
               startDate = startD, endDate = endD, weatherParameters = wp,
               isActive = False, claimsPaid = 0, premiumPaid = 0, status = ''pending'',
               weatherDataCids = [], payoutTrigger = None\<rparr>
         in Inr (pid, s\<lparr>policies := lm_set (policies s) pid policy,
                         totalPolicies := totalPolicies s + 1\<rparr>)))"

text \<open>\<open>create_policy\<close>, the second creation entry point: no validation, the identifier is
  built from the counter before it is incremented, and \<open>station_id\<close> and
  \<open>rainfall_threshold\<close> go to the log only.\<close>

definition create_policy ::
  "Context \<Rightarrow> AccountId \<Rightarrow> string \<Rightarrow> int \<Rightarrow> int \<Rightarrow> rat \<Rightarrow> string \<Rightarrow> DateString \<Rightarrow> DateString
     \<Rightarrow> State \<Rightarrow> error + (string \<times> State)" where
  "create_policy ctx farmer_id crop_type coverage_amount premium_amount rainfall_threshold
       station_id season_start season_end s =
    (let pid = policy_key (totalPolicies s);
         policy = \<lparr>policyId = pid, farmer = farmer_id, cropType = crop_type,
           farmLocation = \<lparr>lat = 0, lng = 0\<rparr>, coverageAmount = coverage_amount,
           premium = premium_amount, startDate = season_start, endDate = season_end,
           weatherParameters = \<lparr>minTemp = 0, maxTemp = 0, minRainfall = 0, maxRainfall = 0\<rparr>,
           isActive = False, claimsPaid = 0, premiumPaid = 0, status = ''pending'',
           weatherDataCids = [], payoutTrigger = None\<rparr>
     in Inr (pid, s\<lparr>totalPolicies := totalPolicies s + 1,
                     policies := lm_set (policies s) pid policy\<rparr>))"

section \<open>Premium settlement\<close>

text \<open>The message of \<open>ft_on_transfer\<close> after \<open>JSON.parse\<close>: \<open>MsgInvalid\<close> when parsing or
  the property read throws (the \<open>catch\<close> branch), otherwise the value of the property
  \<open>policyId\<close>, \<open>None\<close> when the parsed value has none.\<close>

datatype ParsedMsg = MsgInvalid | MsgObject "string option"

definition ft_on_transfer ::
  "Context \<Rightarrow> AccountId \<Rightarrow> int \<Rightarrow> ParsedMsg \<Rightarrow> State \<Rightarrow> error + (int \<times> State)" where
  "ft_on_transfer ctx sender_id amount msg s =
    (if predecessor ctx \<noteq> USDC_CONTRACT then Inl OnlyUsdcCanCallFtOnTransfer
     else (case msg of
        MsgInvalid \<Rightarrow> Inr (amount, s)
      | MsgObject None \<Rightarrow> Inr (amount, s)
      | MsgObject (Some pid) \<Rightarrow>
         (case lm_get (policies s) pid of
            None \<Rightarrow> Inr (amount, s)
          | Some policy \<Rightarrow>
             if farmer policy \<noteq> sender_id then Inr (amount, s)
             else if amount < premium policy then Inr (amount, s)
             else
               (let policy' = policy\<lparr>premiumPaid := amount, status := ''active'',
                                      isActive := True\<rparr>
                in Inr (amount - premium policy,
                        s\<lparr>policies := lm_set (policies s) pid policy',
                          totalPremiumsCollected := totalPremiumsCollected s + amount\<rparr>)))))"

section \<open>Claims and payouts\<close>

definition triggerPayout :: "Context \<Rightarrow> AccountId \<Rightarrow> int \<Rightarrow> State \<Rightarrow> error + State" where
  "triggerPayout ctx recipient amount s =
    (if predecessor ctx \<noteq> currentAccountId ctx then Inl OnlyContractCanTriggerPayouts
     else Inr (s\<lparr>payouts := (recipient, amount) # payouts s\<rparr>))"

definition executePayout :: "Context \<Rightarrow> string \<Rightarrow> State \<Rightarrow> error + State" where
  "executePayout ctx cid s =
    (case lm_get (claims s) cid of
       None \<Rightarrow> Inr s
     | Some claim \<Rightarrow>
        if claim_status claim \<noteq> Approved then Inr s
        else (case triggerPayout ctx (claim_farmer claim) (claimAmount claim) s of
           Inl e \<Rightarrow> Inl e
         | Inr s1 \<Rightarrow>
            (let claim' = claim\<lparr>claim_status := Paid\<rparr>;
                 s2 = s1\<lparr>claims := lm_set (claims s1) cid claim'\<rparr>;
                 s3 = (case lm_get (policies s2) (claim_policyId claim') of
                         None \<Rightarrow> s2
                       | Some policy \<Rightarrow>
                          s2\<lparr>policies := lm_set (policies s2) (claim_policyId claim')
                               (policy\<lparr>claimsPaid := claimsPaid policy + claimAmount claim',
                                       status := ''claimed''\<rparr>)\<rparr>)
             in Inr (s3\<lparr>totalClaimsPaid := totalClaimsPaid s3 + claimAmount claim'\<rparr>))))"

definition processClaimAutomatically :: "Context \<Rightarrow> string \<Rightarrow> State \<Rightarrow> error + State" where
  "processClaimAutomatically ctx cid s =
    (case lm_get (claims s) cid of
       None \<Rightarrow> Inr s
     | Some claim \<Rightarrow>
        (case lm_get (policies s) (claim_policyId claim) of
           None \<Rightarrow> Inr s
         | Some policy \<Rightarrow>
            (let wd = weatherData claim;
                 params = weatherParameters policy;
                 shouldPay = False;
                 payoutPercentage = (0 :: int);
                 tempBreach = (temperature wd < minTemp params \<or> temperature wd > maxTemp params);
                 shouldPay = (if tempBreach then True else shouldPay);
                 payoutPercentage = (if tempBreach then max payoutPercentage 50
                                     else payoutPercentage);
                 rainBreach = (rainfall wd < minRainfall params \<or> rainfall wd > maxRainfall params);
                 shouldPay = (if rainBreach then True else shouldPay);
                 payoutPercentage = (if rainBreach then max payoutPercentage 60
                                     else payoutPercentage)
             in if shouldPay then
                  (let amount = (coverageAmount policy * payoutPercentage) sdiv 100;
                       claim' = claim\<lparr>claimAmount := amount, claim_status := Approved\<rparr>
                   in executePayout ctx cid (s\<lparr>claims := lm_set (claims s) cid claim'\<rparr>))
                else Inr s)))"

definition fileClaim ::
  "Context \<Rightarrow> string \<Rightarrow> string \<Rightarrow> WeatherData \<Rightarrow> State \<Rightarrow> error + (string \<times> State)" where
  "fileClaim ctx pid rsn wd s =
    (case lm_get (policies s) pid of
       None \<Rightarrow> Inl PolicyNotFound
     | Some policy \<Rightarrow>
        if farmer policy \<noteq> predecessor ctx then Inl OnlyPolicyOwnerCanFileClaims
        else if \<not> isActive policy then Inl PolicyIsNotActive
        else
          (let cid = claim_key (totalClaims s + 1);
               claim = \<lparr>claimId = cid, claim_policyId = pid, claim_farmer = predecessor ctx,
                 claimAmount = 0, reason = rsn, weatherData = wd, claim_status = ClaimPending,
                 claim_timestamp = decimal (blockTimestamp ctx)\<rparr>;
               s1 = s\<lparr>claims := lm_set (claims s) cid claim, totalClaims := totalClaims s + 1\<rparr>
           in case processClaimAutomatically ctx cid s1 of
                Inl e \<Rightarrow> Inl e
              | Inr s2 \<Rightarrow> Inr (cid, s2)))"

definition adminTriggerPayout ::
  "Context \<Rightarrow> AccountId \<Rightarrow> int \<Rightarrow> string \<Rightarrow> State \<Rightarrow> error + State" where
  "adminTriggerPayout ctx recipient amount cid s =
    (if predecessor ctx \<noteq> owner s then Inl OnlyOwnerCanTriggerManualPayouts
     else (case lm_get (claims s) cid of
        None \<Rightarrow> Inl ClaimNotFound
      | Some claim \<Rightarrow>
         if claim_status claim \<noteq> Approved then Inl ClaimNotApproved
         else (case triggerPayout ctx recipient amount s of
            Inl e \<Rightarrow> Inl e
          | Inr s1 \<Rightarrow>
             (let claim' = claim\<lparr>claim_status := Paid\<rparr>;
                  s2 = s1\<lparr>claims := lm_set (claims s1) cid claim'\<rparr>;
                  s3 = (case lm_get (policies s2) (claim_policyId claim') of
                          None \<Rightarrow> s2
                        | Some policy \<Rightarrow>
                           s2\<lparr>policies := lm_set (policies s2) (claim_policyId claim')
                                (policy\<lparr>claimsPaid := claimsPaid policy + amount,
                                        status := ''claimed''\<rparr>)\<rparr>)
              in Inr (s3\<lparr>totalClaimsPaid := totalClaimsPaid s3 + amount\<rparr>)))))"

section \<open>Oracles and weather observations\<close>

definition addOracle :: "Context \<Rightarrow> AccountId \<Rightarrow> State \<Rightarrow> error + State" where
  "addOracle ctx oracle s =
    (if predecessor ctx \<noteq> owner s then Inl OnlyOwnerCanAddOracles
     else Inr (s\<lparr>authorizedOracles := lm_set (authorizedOracles s) oracle True\<rparr>))"

definition removeOracle :: "Context \<Rightarrow> AccountId \<Rightarrow> State \<Rightarrow> error + State" where
  "removeOracle ctx oracle s =
    (if predecessor ctx \<noteq> owner s then Inl OnlyOwnerCanRemoveOracles
     else Inr (s\<lparr>authorizedOracles := lm_set (authorizedOracles s) oracle False\<rparr>))"

definition weather_key :: "string \<Rightarrow> nat \<Rightarrow> string" where
  "weather_key station t = station @ ''_'' @ decimal t"

text \<open>\<open>checkAutomaticClaims\<close> and \<open>updatePoliciesWithWeatherCid\<close> only write to the log.\<close>

definition checkAutomaticClaims :: "WeatherData \<Rightarrow> State \<Rightarrow> State" where
  "checkAutomaticClaims wd s = s"

definition updatePoliciesWithWeatherCid :: "string \<Rightarrow> string \<Rightarrow> State \<Rightarrow> State" where
  "updatePoliciesWithWeatherCid station cid s = s"

definition submitWeatherData ::
  "Context \<Rightarrow> string \<Rightarrow> rat \<Rightarrow> rat \<Rightarrow> rat \<Rightarrow> rat \<Rightarrow> string option \<Rightarrow> State \<Rightarrow> error + State" where
  "submitWeatherData ctx station temp rain hum wind cid s =
    (let caller = predecessor ctx in
     if \<not> lm_get (authorizedOracles s) caller = Some True then Inl OnlyAuthorizedOracles
     else
       (let wd = \<lparr>stationId = station, timestamp = decimal (blockTimestamp ctx),
                  temperature = temp, rainfall = rain, humidity = hum, windSpeed = wind,
                  filecoinCid = cid\<rparr>;
            k = weather_key station (blockTimestamp ctx);
            s1 = s\<lparr>weatherDataStorage := lm_set (weatherDataStorage s) k wd\<rparr>
        in Inr (checkAutomaticClaims wd s1)))"

text \<open>\<open>receive_weather\<close>: the timestamp is the caller's, a count of milliseconds.\<close>

definition receive_weather :: "Context \<Rightarrow> string \<Rightarrow> nat \<Rightarrow> string \<Rightarrow> State \<Rightarrow> error + State" where
  "receive_weather ctx station ts cid s =
    (let caller = predecessor ctx in
     if \<not> lm_get (authorizedOracles s) caller = Some True then Inl OnlyAuthorizedOracles
     else
       (let wd = \<lparr>stationId = station, timestamp = decimal ts,
                  temperature = 0, rainfall = 0, humidity = 0, windSpeed = 0,
                  filecoinCid = Some cid\<rparr>;
            k = weather_key station ts;
            s1 = s\<lparr>weatherDataStorage := lm_set (weatherDataStorage s) k wd\<rparr>
        in Inr (updatePoliciesWithWeatherCid station cid s1)))"

section \<open>The automation entry points\<close>

definition process_policy_claims ::
  "Context \<Rightarrow> string \<Rightarrow> rat \<Rightarrow> string \<Rightarrow> string \<Rightarrow> State \<Rightarrow> error + (bool \<times> State)" where
  "process_policy_claims ctx policy_id actual_rainfall weather_cid trigger_timestamp s =
    (case lm_get (policies s) policy_id of
       None \<Rightarrow> Inl PolicyNotFound
     | Some policy \<Rightarrow>
        if status policy \<noteq> ''pending'' then Inl PolicyIsNotPending
        else
          (let rainfallThreshold = (30 :: rat) in
           if actual_rainfall \<ge> rainfallThreshold then Inr (False, s)
           else
             (let policy' = policy\<lparr>status := ''claimed'',
                    payoutTrigger := Some \<lparr>triggeredAt = trigger_timestamp,
                      actualRainfall = actual_rainfall, expectedRainfall = rainfallThreshold,
                      weatherCid = weather_cid\<rparr>\<rparr>
              in Inr (True, s\<lparr>policies := lm_set (policies s) policy_id policy'\<rparr>))))"

definition update_policy_status :: "Context \<Rightarrow> string \<Rightarrow> string \<Rightarrow> State \<Rightarrow> error + State" where
  "update_policy_status ctx policy_id new_status s =
    (case lm_get (policies s) policy_id of
       None \<Rightarrow> Inl PolicyNotFound
     | Some policy \<Rightarrow>
        Inr (s\<lparr>policies := lm_set (policies s) policy_id (policy\<lparr>status := new_status\<rparr>)\<rparr>))"

section \<open>Queries\<close>

text \<open>\<open>get_policies\<close> builds an empty result list, takes \<open>limit || 100\<close> and then starts
  \<open>for (const [policyId, policy] of this.policies)\<close>. The field \<open>policies\<close> is a
  \<open>LookupMap\<close> of near-sdk-js, which offers \<open>get\<close>, \<open>set\<close>, \<open>containsKey\<close> and \<open>remove\<close>
  and no iterator: the loop statement throws the TypeError "this.policies is not iterable"
  before its body runs once, whatever the arguments and whatever is stored. The filters of
  the body (on \<open>policy.stationId\<close>, a property no stored policy has, on the status and on
  the limit) are never reached, so the view returns no list at all.\<close>

definition get_policies ::
  "string option \<Rightarrow> string option \<Rightarrow> int option \<Rightarrow> State \<Rightarrow> error + InsurancePolicy list" where
  "get_policies station_id st limit s = Inl PoliciesNotIterable"

definition getPolicy :: "string \<Rightarrow> State \<Rightarrow> InsurancePolicy option" where
  "getPolicy pid s = lm_get (policies s) pid"

definition getClaim :: "string \<Rightarrow> State \<Rightarrow> Claim option" where
  "getClaim cid s = lm_get (claims s) cid"

section \<open>Calls and runs\<close>

text \<open>The state-changing methods the contract exports, with their arguments. \<open>perform\<close>
  gives the state after a call: the new state when the call returns, the old one when it
  aborts.\<close>

datatype Call =
    CreatePolicy string Location int DateString DateString WeatherParameters
  | Create_policy AccountId string int int rat string DateString DateString
  | Ft_on_transfer AccountId int ParsedMsg
  | SubmitWeatherData string rat rat rat rat "string option"
  | Receive_weather string nat string
  | FileClaim string string WeatherData
  | TriggerPayout AccountId int
  | AdminTriggerPayout AccountId int string
  | AddOracle AccountId
  | RemoveOracle AccountId
  | Process_policy_claims string rat string string
  | Update_policy_status string string

fun run_call :: "Context \<Rightarrow> Call \<Rightarrow> State \<Rightarrow> error + State" where
  "run_call ctx (CreatePolicy crop loc cov sd ed wp) s = map_sum id snd (createPolicy ctx crop loc cov sd ed wp s)"
| "run_call ctx (Create_policy f crop cov prem thr station sd ed) s =
     map_sum id snd (create_policy ctx f crop cov prem thr station sd ed s)"
| "run_call ctx (Ft_on_transfer sender amount msg) s = map_sum id snd (ft_on_transfer ctx sender amount msg s)"
| "run_call ctx (SubmitWeatherData station t r h w cid) s = submitWeatherData ctx station t r h w cid s"
| "run_call ctx (Receive_weather station ts cid) s = receive_weather ctx station ts cid s"
| "run_call ctx (FileClaim pid rsn wd) s = map_sum id snd (fileClaim ctx pid rsn wd s)"
| "run_call ctx (TriggerPayout recipient amount) s = triggerPayout ctx recipient amount s"
| "run_call ctx (AdminTriggerPayout recipient amount cid) s = adminTriggerPayout ctx recipient amount cid s"
| "run_call ctx (AddOracle oracle) s = addOracle ctx oracle s"
| "run_call ctx (RemoveOracle oracle) s = removeOracle ctx oracle s"
| "run_call ctx (Process_policy_claims pid rain cid ts) s = map_sum id snd (process_policy_claims ctx pid rain cid ts s)"
| "run_call ctx (Update_policy_status pid st) s = update_policy_status ctx pid st s"

definition perform :: "Context \<times> Call \<Rightarrow> State \<Rightarrow> State" where
  "perform cc s = (case run_call (fst cc) (snd cc) s of Inl e \<Rightarrow> s | Inr s' \<Rightarrow> s')"

fun run :: "(Context \<times> Call) list \<Rightarrow> State \<Rightarrow> State" where
  "run [] s = s"
| "run (cc # ccs) s = run ccs (perform cc s)"

section \<open>A deployment and its callers\<close>

text \<open>The concrete setting of the closed theorems below: the contract account
  \<open>agriguard.testnet\<close> initialised with itself as owner (as the repository's sandbox test
  does), a farmer, the token contract and the oracle that \<open>init\<close> registers. The policy is
  the one of the sandbox test: wheat, coverage 100 USDC, thresholds \<open>[5, 30]\<close> and
  \<open>[300, 1000]\<close>, window 2024-01-01 to 2024-12-31, created before the window opens.\<close>

definition deployed :: State where
  "deployed = init ''agriguard.testnet'' constructor"

definition farmer_ctx :: Context where
  "farmer_ctx = \<lparr>predecessor = ''farmer.testnet'', currentAccountId = ''agriguard.testnet'',
     blockTimestamp = 1700000000, now = 1700000000000\<rparr>"

definition usdc_ctx :: Context where
  "usdc_ctx = \<lparr>predecessor = ''usdc.fakes.testnet'', currentAccountId = ''agriguard.testnet'',
     blockTimestamp = 1700000001, now = 1700000001000\<rparr>"

definition oracle_ctx :: Context where
  "oracle_ctx = \<lparr>predecessor = ''weather-oracle.testnet'', currentAccountId = ''agriguard.testnet'',
     blockTimestamp = 1700000002, now = 1700000002000\<rparr>"

definition self_ctx :: Context where
  "self_ctx = \<lparr>predecessor = ''agriguard.testnet'', currentAccountId = ''agriguard.testnet'',
     blockTimestamp = 1700000003, now = 1700000003000\<rparr>"

definition temperate :: Location where
  "temperate = \<lparr>lat = 30, lng = -74\<rparr>"

definition new_york :: Location where
  "new_york = \<lparr>lat = 407128 / 10000, lng = - (74006 / 1000)\<rparr>"

definition thresholds :: WeatherParameters where
  "thresholds = \<lparr>minTemp = 5, maxTemp = 30, minRainfall = 300, maxRainfall = 1000\<rparr>"

definition window_start :: int where
  "window_start = 1704067200000"

definition window_end :: int where
  "window_end = 1735603200000"

definition wheat_policy :: "AccountId \<Rightarrow> int \<Rightarrow> InsurancePolicy" where
  "wheat_policy who prem = \<lparr>policyId = ''policy_1'', farmer = who, cropType = ''wheat'',
     farmLocation = temperate, coverageAmount = 100000000, premium = prem,
     startDate = Some window_start, endDate = Some window_end, weatherParameters = thresholds,
     isActive = False, claimsPaid = 0, premiumPaid = 0, status = ''pending'',
     weatherDataCids = [], payoutTrigger = None\<rparr>"

definition created :: State where
  "created = deployed\<lparr>policies := [(''policy_1'', wheat_policy ''farmer.testnet'' 5000000)],
     totalPolicies := 1\<rparr>"

definition activated :: State where
  "activated = created\<lparr>policies := [(''policy_1'', (wheat_policy ''farmer.testnet'' 5000000)
       \<lparr>premiumPaid := 5000000, status := ''active'', isActive := True\<rparr>)],
     totalPremiumsCollected := 5000000\<rparr>"

definition settle_calls :: "(Context \<times> Call) list" where
  "settle_calls =
    [(farmer_ctx, CreatePolicy ''wheat'' temperate 100000000 (Some window_start) (Some window_end)
        thresholds),
     (usdc_ctx, Ft_on_transfer ''farmer.testnet'' 5000000 (MsgObject (Some ''policy_1'')))]"

definition hot_and_dry :: WeatherData where
  "hot_and_dry = \<lparr>stationId = ''test_station'', timestamp = ''1700000000000'', temperature = 45,
     rainfall = 50, humidity = 60, windSpeed = 15, filecoinCid = None\<rparr>"

definition mild :: WeatherData where
  "mild = \<lparr>stationId = ''test_station'', timestamp = ''1700000000000'', temperature = 20,
     rainfall = 500, humidity = 60, windSpeed = 15, filecoinCid = None\<rparr>"

section \<open>Observations on states\<close>

text \<open>The status of a stored policy and the status of a stored claim, for the statements
  below; \<open>status_move\<close> lists, call by call, the status a call can give to a policy that it
  changes.\<close>

definition status_of :: "string \<Rightarrow> State \<Rightarrow> string option" where
  "status_of pid s = map_option status (lm_get (policies s) pid)"

definition status_move :: "Call \<Rightarrow> string \<Rightarrow> string \<Rightarrow> bool" where
  "status_move c old new =
    (case c of
       CreatePolicy crop loc cov sd ed wp \<Rightarrow> new = ''pending''
     | Create_policy f crop cov prem thr station sd ed \<Rightarrow> new = ''pending''
     | Ft_on_transfer sender amount msg \<Rightarrow> new = ''active''
     | FileClaim pid rsn wd \<Rightarrow> new = ''claimed''
     | AdminTriggerPayout recipient amount cid \<Rightarrow> new = ''claimed''
     | Process_policy_claims pid rain cid ts \<Rightarrow> old = ''pending'' \<and> new = ''claimed''
     | Update_policy_status pid st \<Rightarrow> new = st
     | _ \<Rightarrow> False)"






text \<open>The two threshold tests of \<open>processClaimAutomatically\<close> and the percentage it
  arrives at, named for the statements below.\<close>

definition tempBreach :: "WeatherData \<Rightarrow> WeatherParameters \<Rightarrow> bool" where
  "tempBreach wd params = (temperature wd < minTemp params \<or> temperature wd > maxTemp params)"

definition rainBreach :: "WeatherData \<Rightarrow> WeatherParameters \<Rightarrow> bool" where
  "rainBreach wd params = (rainfall wd < minRainfall params \<or> rainfall wd > maxRainfall params)"

definition payoutPercentage :: "WeatherData \<Rightarrow> WeatherParameters \<Rightarrow> int" where
  "payoutPercentage wd params =
     max (if tempBreach wd params then 50 else 0) (if rainBreach wd params then 60 else 0)"

text \<open>The same policy taken out by the contract account itself, the one caller for which
  \<open>triggerPayout\<close> accepts a call made from inside \<open>fileClaim\<close>: the states after
  creation, after settlement and after a first claim on the hot and dry observation.\<close>

definition own_created :: State where
  "own_created = deployed\<lparr>policies := [(''policy_1'', wheat_policy ''agriguard.testnet'' 5000000)],
     totalPolicies := 1\<rparr>"

definition own_activated :: State where
  "own_activated = own_created\<lparr>policies := [(''policy_1'', (wheat_policy ''agriguard.testnet'' 5000000)
       \<lparr>premiumPaid := 5000000, status := ''active'', isActive := True\<rparr>)],
     totalPremiumsCollected := 5000000\<rparr>"

definition heat_claim :: "string \<Rightarrow> string \<Rightarrow> Claim" where
  "heat_claim cid rsn = \<lparr>claimId = cid, claim_policyId = ''policy_1'',
     claim_farmer = ''agriguard.testnet'', claimAmount = 60000000, reason = rsn,
     weatherData = hot_and_dry, claim_status = Paid, claim_timestamp = ''1700000003''\<rparr>"

definition own_paid :: State where
  "own_paid = own_activated\<lparr>policies := [(''policy_1'', (wheat_policy ''agriguard.testnet'' 5000000)
       \<lparr>premiumPaid := 5000000, status := ''claimed'', isActive := True,
         claimsPaid := 60000000\<rparr>)],
     claims := [(''claim_1'', heat_claim ''claim_1'' ''heat'')],
     totalClaims := 1, totalClaimsPaid := 60000000,
     payouts := [(''agriguard.testnet'', 60000000)]\<rparr>"

definition own_paid_twice :: State where
  "own_paid_twice = own_paid\<lparr>policies := [(''policy_1'', (wheat_policy ''agriguard.testnet'' 5000000)
       \<lparr>premiumPaid := 5000000, status := ''claimed'', isActive := True,
         claimsPaid := 120000000\<rparr>)],
     claims := [(''claim_1'', heat_claim ''claim_1'' ''heat''),
                (''claim_2'', heat_claim ''claim_2'' ''again'')],
     totalClaims := 2, totalClaimsPaid := 120000000,
     payouts := [(''agriguard.testnet'', 60000000), (''agriguard.testnet'', 60000000)]\<rparr>"

definition own_calls :: "(Context \<times> Call) list" where
  "own_calls =
    [(self_ctx, CreatePolicy ''wheat'' temperate 100000000 (Some window_start) (Some window_end)
        thresholds),
     (usdc_ctx, Ft_on_transfer ''agriguard.testnet'' 5000000 (MsgObject (Some ''policy_1''))),
     (self_ctx, FileClaim ''policy_1'' ''heat'' hot_and_dry),
     (self_ctx, AdminTriggerPayout ''agriguard.testnet'' 60000000 ''claim_1''),
     (self_ctx, FileClaim ''policy_1'' ''again'' hot_and_dry)]"

definition marked_expired :: State where
  "marked_expired = activated\<lparr>policies := [(''policy_1'', (wheat_policy ''farmer.testnet'' 5000000)
       \<lparr>premiumPaid := 5000000, status := ''expired'', isActive := True\<rparr>)]\<rparr>"

text \<open>The premium as the specification words it: the crop-risk multiplier times the
  geographic-risk multiplier times the base rate, applied to the coverage, and not below
  the minimum premium. \<open>calculatePremium\<close> above is the source's computation, which
  rounds the rate down to basis points after each multiplier.\<close>

definition cropRiskMultiplier :: "string \<Rightarrow> rat" where
  "cropRiskMultiplier crop =
     (case map_of cropRiskMultipliers (toLowerCase crop) of Some m \<Rightarrow> m | None \<Rightarrow> 1)"

definition spec_premium :: "int \<Rightarrow> string \<Rightarrow> Location \<Rightarrow> int" where
  "spec_premium coverage crop loc =
     max MIN_PREMIUM_USDC
       \<lfloor>cropRiskMultiplier crop * calculateGeographicalRisk loc *
          (of_int DEFAULT_PREMIUM_RATE / of_int BASIS_POINTS) * of_int coverage\<rfloor>"

definition ny_created :: State where
  "ny_created = deployed\<lparr>policies := [(''policy_1'', (wheat_policy ''farmer.testnet'' 5500000)
       \<lparr>farmLocation := new_york\<rparr>)], totalPolicies := 1\<rparr>"

text \<open>The farmer calling at the very instant the coverage window opens.\<close>

definition opening_ctx :: Context where
  "opening_ctx = \<lparr>predecessor = ''farmer.testnet'', currentAccountId = ''agriguard.testnet'',
     blockTimestamp = 1704067200, now = 1704067200000\<rparr>"

text \<open>A policy of the set-up script, created through \<open>create_policy\<close> for the station
  \<open>WXM_STATION_001\<close>, before and after its premium is settled.\<close>

definition station_policy :: InsurancePolicy where
  "station_policy = \<lparr>policyId = ''policy_0'', farmer = ''farmer2.testnet'', cropType = ''Wheat'',
     farmLocation = \<lparr>lat = 0, lng = 0\<rparr>, coverageAmount = 3000, premium = 150,
     startDate = Some 1711929600000, endDate = Some 1725062400000,
     weatherParameters = \<lparr>minTemp = 0, maxTemp = 0, minRainfall = 0, maxRainfall = 0\<rparr>,
     isActive = False, claimsPaid = 0, premiumPaid = 0, status = ''pending'',
     weatherDataCids = [], payoutTrigger = None\<rparr>"

definition station_created :: State where
  "station_created = deployed\<lparr>policies := [(''policy_0'', station_policy)], totalPolicies := 1\<rparr>"

definition station_active :: State where
  "station_active = station_created\<lparr>policies := [(''policy_0'',
       station_policy\<lparr>premiumPaid := 150, status := ''active'', isActive := True\<rparr>)],
     totalPremiumsCollected := 150\<rparr>"

section \<open>Lemmas on maps and numerals\<close>

lemma lm_get_Nil [simp]: "lm_get [] k = None"
  by (simp add: lm_get_def)

lemma lm_get_Cons [simp]: "lm_get ((k, v) # m) k' = (if k' = k then Some v else lm_get m k')"
  by (simp add: lm_get_def)

lemma lm_get_set [simp]: "lm_get (lm_set m k v) k' = (if k' = k then Some v else lm_get m k')"
  by (simp add: lm_get_def lm_set_def update_conv')

lemma lm_set_Nil [simp]: "lm_set [] k v = [(k, v)]"
  by (simp add: lm_set_def)

lemma lm_set_Cons [simp]:
  "lm_set ((k', v') # m) k v = (if k' = k then (k, v) # m else (k', v') # lm_set m k v)"
  by (simp add: lm_set_def)

lemma decimal_0 [simp]: "decimal 0 = ''0''"
  by code_simp

lemma decimal_1 [simp]: "decimal (Suc 0) = ''1''"
  by code_simp

lemma decimal_2 [simp]: "decimal 2 = ''2''"
  by code_simp

lemmas scene_defs = deployed_def init_def constructor_def farmer_ctx_def usdc_ctx_def
  oracle_ctx_def self_ctx_def temperate_def new_york_def thresholds_def window_start_def
  window_end_def wheat_policy_def created_def activated_def hot_and_dry_def mild_def
  USDC_CONTRACT_def

lemmas premium_defs = calculatePremium_def calculateGeographicalRisk_def cropRiskMultipliers_def
  toLowerCase_def lower_char_def MIN_PREMIUM_USDC_def MAX_COVERAGE_USDC_def BASIS_POINTS_def
  DEFAULT_PREMIUM_RATE_def signed_divide_int_def

text \<open>The two states of the setting are what the contract computes: the farmer's
  \<open>createPolicy\<close> gives \<open>created\<close>, and settling the premium gives \<open>activated\<close>.\<close>

lemma created_run:
  "createPolicy farmer_ctx ''wheat'' temperate 100000000 (Some window_start) (Some window_end)
     thresholds deployed = Inr (''policy_1'', created)"
  by (simp add: createPolicy_def validatePolicyInputs_def validCrops_def policy_key_def
      premium_defs scene_defs Let_def)

lemma activated_run:
  "ft_on_transfer usdc_ctx ''farmer.testnet'' 5000000 (MsgObject (Some ''policy_1'')) created
     = Inr (0, activated)"
  by (simp add: ft_on_transfer_def scene_defs)

lemma settle_calls_run:
  "run (take 1 settle_calls) deployed = created" "run settle_calls deployed = activated"
  by (simp_all add: settle_calls_def perform_def created_run activated_run)

section \<open>Oracle authorisation of weather submissions\<close>

text \<open>
  C9. A caller whose entry in the oracle registry is not \<open>true\<close> (absent, or set to
  \<open>false\<close> by \<open>removeOracle\<close>) cannot submit an observation: \<open>submitWeatherData\<close> and
  \<open>receive_weather\<close> both abort with the authorisation error and the state stays as it
  was, so no observation is stored. A caller whose entry is \<open>true\<close> gets the observation
  stored under the key of its station and timestamp.
\<close>

theorem weather_submission_needs_oracle_flag:
  "(lm_get (authorizedOracles s) (predecessor ctx) \<noteq> Some True \<longrightarrow>
      submitWeatherData ctx station t r h w cid s = Inl OnlyAuthorizedOracles \<and>
      receive_weather ctx station ts fc s = Inl OnlyAuthorizedOracles \<and>
      perform (ctx, SubmitWeatherData station t r h w cid) s = s \<and>
      perform (ctx, Receive_weather station ts fc) s = s)
   \<and> (lm_get (authorizedOracles s) (predecessor ctx) = Some True \<longrightarrow>
      (\<exists>s'. submitWeatherData ctx station t r h w cid s = Inr s' \<and>
         lm_get (weatherDataStorage s') (weather_key station (blockTimestamp ctx)) =
           Some \<lparr>stationId = station, timestamp = decimal (blockTimestamp ctx), temperature = t,
                  rainfall = r, humidity = h, windSpeed = w, filecoinCid = cid\<rparr>) \<and>
      (\<exists>s'. receive_weather ctx station ts fc s = Inr s' \<and>
         lm_get (weatherDataStorage s') (weather_key station ts) =
           Some \<lparr>stationId = station, timestamp = decimal ts, temperature = 0,
                  rainfall = 0, humidity = 0, windSpeed = 0, filecoinCid = Some fc\<rparr>))"
  by (simp add: submitWeatherData_def receive_weather_def perform_def
      checkAutomaticClaims_def updatePoliciesWithWeatherCid_def Let_def)

theorem weather_submission_needs_oracle_flag_witness:
  "lm_get (authorizedOracles deployed) (predecessor farmer_ctx) \<noteq> Some True \<and>
   submitWeatherData farmer_ctx ''WXM_001'' 25 500 70 10 None deployed = Inl OnlyAuthorizedOracles \<and>
   receive_weather farmer_ctx ''WXM_001'' 5 ''bafy'' deployed = Inl OnlyAuthorizedOracles \<and>
   lm_get (authorizedOracles deployed) (predecessor oracle_ctx) = Some True \<and>
   (\<exists>s'. submitWeatherData oracle_ctx ''WXM_001'' 25 500 70 10 None deployed = Inr s' \<and>
      lm_get (weatherDataStorage s') (weather_key ''WXM_001'' (blockTimestamp oracle_ctx)) \<noteq> None) \<and>
   (\<exists>s'. receive_weather oracle_ctx ''WXM_001'' 5 ''bafy'' deployed = Inr s' \<and>
      lm_get (weatherDataStorage s') (weather_key ''WXM_001'' 5) \<noteq> None)"
proof -
  have unauth: "lm_get (authorizedOracles deployed) (predecessor farmer_ctx) \<noteq> Some True"
    by (simp add: scene_defs)
  have auth: "lm_get (authorizedOracles deployed) (predecessor oracle_ctx) = Some True"
    by (simp add: scene_defs)
  from unauth auth
    weather_submission_needs_oracle_flag
      [of deployed farmer_ctx "''WXM_001''" 25 500 70 10 None 5 "''bafy''"]
    weather_submission_needs_oracle_flag
      [of deployed oracle_ctx "''WXM_001''" 25 500 70 10 None 5 "''bafy''"]
  show ?thesis by auto
qed

section \<open>Overpaid premiums\<close>

text \<open>
  C10. When \<open>ft_on_transfer\<close> activates a policy with an amount strictly greater than the
  required premium, it returns the excess as refund, and yet the policy's \<open>premiumPaid\<close>
  and the statistic \<open>totalPremiumsCollected\<close> both take the full amount transferred: the
  statistic grows by more than the premium the policy required.
\<close>

theorem overpayment_recorded_in_full:
  assumes "predecessor ctx = USDC_CONTRACT"
    and "lm_get (policies s) pid = Some policy"
    and "farmer policy = sender_id"
    and "amount > premium policy"
  shows "\<exists>s' policy'. ft_on_transfer ctx sender_id amount (MsgObject (Some pid)) s
             = Inr (amount - premium policy, s') \<and>
           amount - premium policy > 0 \<and>
           lm_get (policies s') pid = Some policy' \<and>
           status policy' = ''active'' \<and> isActive policy' \<and>
           premiumPaid policy' = amount \<and>
           premium policy' = premium policy \<and>
           totalPremiumsCollected s' = totalPremiumsCollected s + amount \<and>
           totalPremiumsCollected s' - totalPremiumsCollected s > premium policy'"
  using assms by (simp add: ft_on_transfer_def Let_def)

theorem overpayment_recorded_in_full_witness:
  "predecessor usdc_ctx = USDC_CONTRACT \<and>
   lm_get (policies created) ''policy_1'' = Some (wheat_policy ''farmer.testnet'' 5000000) \<and>
   farmer (wheat_policy ''farmer.testnet'' 5000000) = ''farmer.testnet'' \<and>
   (6000000 :: int) > premium (wheat_policy ''farmer.testnet'' 5000000) \<and>
   (\<exists>s' policy'. ft_on_transfer usdc_ctx ''farmer.testnet'' 6000000 (MsgObject (Some ''policy_1'')) created
        = Inr (1000000, s') \<and>
      lm_get (policies s') ''policy_1'' = Some policy' \<and>
      premium policy' = 5000000 \<and> premiumPaid policy' = 6000000 \<and>
      totalPremiumsCollected s' = 6000000)"
proof -
  have a: "predecessor usdc_ctx = USDC_CONTRACT"
    by (simp add: scene_defs)
  have b: "lm_get (policies created) ''policy_1'' = Some (wheat_policy ''farmer.testnet'' 5000000)"
    by (simp add: created_def)
  have c: "farmer (wheat_policy ''farmer.testnet'' 5000000) = ''farmer.testnet''"
    by (simp add: wheat_policy_def)
  have d: "(6000000 :: int) > premium (wheat_policy ''farmer.testnet'' 5000000)"
    by (simp add: wheat_policy_def)
  have e: "premium (wheat_policy ''farmer.testnet'' 5000000) = 5000000"
    by (simp add: wheat_policy_def)
  have f: "totalPremiumsCollected created = 0"
    by (simp add: scene_defs)
  from overpayment_recorded_in_full [OF a b c d] a b c d e f show ?thesis
    by auto
qed


section \<open>Settlements that do not activate a policy\<close>

text \<open>
  C1, as stated: every \<open>ft_on_transfer\<close> that should not activate a policy returns the
  full amount and changes nothing, also when the caller is not the token contract and when
  the policy is not Pending. That fails twice. The callback never reads the status: a
  second delivery of the same transfer against the policy it has already activated is
  accepted again, returns \<open>0\<close> and adds the amount to \<open>totalPremiumsCollected\<close> a second
  time. And a caller other than the token contract gets the assertion error, not a refund.
\<close>

theorem settlement_replay_counterexample:
  "run settle_calls deployed = activated \<and>
   status_of ''policy_1'' activated = Some ''active'' \<and>
   totalPremiumsCollected activated = 5000000 \<and>
   ft_on_transfer usdc_ctx ''farmer.testnet'' 5000000 (MsgObject (Some ''policy_1'')) activated
     = Inr (0, activated\<lparr>totalPremiumsCollected := 10000000\<rparr>) \<and>
   ft_on_transfer usdc_ctx ''farmer.testnet'' 5000000 (MsgObject (Some ''policy_1'')) activated
     \<noteq> Inr (5000000, activated) \<and>
   predecessor farmer_ctx \<noteq> USDC_CONTRACT \<and>
   ft_on_transfer farmer_ctx ''farmer.testnet'' 5000000 (MsgObject (Some ''policy_1'')) created
     = Inl OnlyUsdcCanCallFtOnTransfer"
  using settle_calls_run(2) by (simp add: ft_on_transfer_def status_of_def scene_defs)

text \<open>
  C1, amended: a call from any account other than the token contract aborts with the
  assertion error and leaves the state as it was. A call from the token contract returns
  the full amount and leaves the state as it was when the message does not parse, names no
  policy, names a policy that is not stored, when the payer is not the policy's farmer, or
  when the amount is strictly less than the premium. Nothing is said of a delivery against
  a policy that is not Pending.
\<close>

theorem settlement_refusals:
  "(predecessor ctx \<noteq> USDC_CONTRACT \<longrightarrow>
      ft_on_transfer ctx sender_id amount msg s = Inl OnlyUsdcCanCallFtOnTransfer \<and>
      perform (ctx, Ft_on_transfer sender_id amount msg) s = s)
   \<and> (predecessor ctx = USDC_CONTRACT \<and>
       (msg = MsgInvalid \<or> msg = MsgObject None \<or>
        (\<exists>pid. msg = MsgObject (Some pid) \<and>
           (lm_get (policies s) pid = None \<or>
            (\<exists>p. lm_get (policies s) pid = Some p \<and>
               (farmer p \<noteq> sender_id \<or> amount < premium p)))))
      \<longrightarrow> ft_on_transfer ctx sender_id amount msg s = Inr (amount, s) \<and>
          perform (ctx, Ft_on_transfer sender_id amount msg) s = s)"
  by (auto simp add: ft_on_transfer_def perform_def)

theorem settlement_refusals_witness:
  "predecessor farmer_ctx \<noteq> USDC_CONTRACT \<and>
   ft_on_transfer farmer_ctx ''farmer.testnet'' 5000000 (MsgObject (Some ''policy_1'')) created
     = Inl OnlyUsdcCanCallFtOnTransfer \<and>
   predecessor usdc_ctx = USDC_CONTRACT \<and>
   (\<exists>p. lm_get (policies created) ''policy_1'' = Some p \<and> 1000000 < premium p) \<and>
   ft_on_transfer usdc_ctx ''farmer.testnet'' 1000000 (MsgObject (Some ''policy_1'')) created
     = Inr (1000000, created) \<and>
   ft_on_transfer usdc_ctx ''farmer.testnet'' 5000000 MsgInvalid created = Inr (5000000, created) \<and>
   ft_on_transfer usdc_ctx ''farmer.testnet'' 5000000 (MsgObject (Some ''policy_7'')) created
     = Inr (5000000, created) \<and>
   ft_on_transfer usdc_ctx ''mallory.testnet'' 5000000 (MsgObject (Some ''policy_1'')) created
     = Inr (5000000, created)"
proof -
  have a: "predecessor farmer_ctx \<noteq> USDC_CONTRACT" and b: "predecessor usdc_ctx = USDC_CONTRACT"
    by (simp_all add: scene_defs)
  have p: "lm_get (policies created) ''policy_1'' = Some (wheat_policy ''farmer.testnet'' 5000000)"
    and q: "lm_get (policies created) ''policy_7'' = None"
    by (simp_all add: created_def)
  have w: "farmer (wheat_policy ''farmer.testnet'' 5000000) \<noteq> ''mallory.testnet''"
      "(1000000 :: int) < premium (wheat_policy ''farmer.testnet'' 5000000)"
    by (simp_all add: wheat_policy_def)
  from a b p q w
    settlement_refusals [of farmer_ctx "''farmer.testnet''" 5000000 "MsgObject (Some ''policy_1'')" created]
    settlement_refusals [of usdc_ctx "''farmer.testnet''" 1000000 "MsgObject (Some ''policy_1'')" created]
    settlement_refusals [of usdc_ctx "''farmer.testnet''" 5000000 MsgInvalid created]
    settlement_refusals [of usdc_ctx "''farmer.testnet''" 5000000 "MsgObject (Some ''policy_7'')" created]
    settlement_refusals [of usdc_ctx "''mallory.testnet''" 5000000 "MsgObject (Some ''policy_1'')" created]
  show ?thesis by auto
qed


section \<open>The status of a policy, call by call\<close>

text \<open>
  C2, as stated: no call moves a policy's status backwards, back to Pending, or past
  Active. \<open>update_policy_status\<close> stores whatever status it is given, for any caller, so
  it takes the activated policy back to \<open>pending\<close>; and \<open>process_policy_claims\<close> accepts
  only a Pending policy and takes it to \<open>claimed\<close> without it ever being Active.
\<close>

theorem status_regression_counterexample:
  "run (take 1 settle_calls) deployed = created \<and>
   run settle_calls deployed = activated \<and>
   status_of ''policy_1'' activated = Some ''active'' \<and>
   status_of ''policy_1''
     (perform (farmer_ctx, Update_policy_status ''policy_1'' ''pending'') activated)
     = Some ''pending'' \<and>
   status_of ''policy_1'' created = Some ''pending'' \<and>
   status_of ''policy_1''
     (perform (farmer_ctx, Process_policy_claims ''policy_1'' 10 ''bafy'' ''2024-06-01'') created)
     = Some ''claimed''"
  using settle_calls_run
  by (simp add: perform_def update_policy_status_def process_policy_claims_def status_of_def
      scene_defs)


lemma triggerPayout_keeps:
  "triggerPayout ctx r a s = Inr s' \<Longrightarrow>
     policies s' = policies s \<and> claims s' = claims s \<and> totalClaims s' = totalClaims s"
  by (auto simp add: triggerPayout_def split: if_splits)

lemma executePayout_status:
  assumes "executePayout ctx cid s = Inr s'" and "lm_get (policies s) pid = Some p"
  shows "\<exists>p'. lm_get (policies s') pid = Some p' \<and>
           (status p' = status p \<or> status p' = ''claimed'')"
  using assms
  by (auto simp add: executePayout_def Let_def dest!: triggerPayout_keeps
      split: option.splits if_splits sum.splits)

lemma processClaimAutomatically_status:
  assumes "processClaimAutomatically ctx cid s = Inr s'" and "lm_get (policies s) pid = Some p"
  shows "\<exists>p'. lm_get (policies s') pid = Some p' \<and>
           (status p' = status p \<or> status p' = ''claimed'')"
proof (cases "processClaimAutomatically ctx cid s = Inr s")
  case True
  with assms show ?thesis by simp
next
  case False
  with assms(1) obtain s1 where e: "executePayout ctx cid s1 = Inr s'" and k: "policies s1 = policies s"
    by (auto simp add: processClaimAutomatically_def Let_def split: option.splits if_splits)
  from executePayout_status [OF e] k assms(2) show ?thesis by simp
qed

lemma fileClaim_status:
  assumes "fileClaim ctx fpid rsn wd s = Inr (cid, s')" and "lm_get (policies s) pid = Some p"
  shows "\<exists>p'. lm_get (policies s') pid = Some p' \<and>
           (status p' = status p \<or> status p' = ''claimed'')"
proof -
  from assms(1) obtain s1 c where e: "processClaimAutomatically ctx c s1 = Inr s'"
    and k: "policies s1 = policies s"
    by (auto simp add: fileClaim_def Let_def split: option.splits if_splits sum.splits)
  from processClaimAutomatically_status [OF e] k assms(2) show ?thesis by simp
qed

lemma adminTriggerPayout_status:
  assumes "adminTriggerPayout ctx r a cid s = Inr s'" and "lm_get (policies s) pid = Some p"
  shows "\<exists>p'. lm_get (policies s') pid = Some p' \<and>
           (status p' = status p \<or> status p' = ''claimed'')"
  using assms
  by (auto simp add: adminTriggerPayout_def Let_def dest!: triggerPayout_keeps
      split: option.splits if_splits sum.splits)

lemma ft_on_transfer_status:
  assumes "ft_on_transfer ctx sender amount msg s = Inr (r, s')" and "lm_get (policies s) pid = Some p"
  shows "\<exists>p'. lm_get (policies s') pid = Some p' \<and>
           (status p' = status p \<or> status p' = ''active'')"
  using assms
  by (auto simp add: ft_on_transfer_def Let_def split: option.splits if_splits ParsedMsg.splits)

lemma process_policy_claims_status:
  assumes "process_policy_claims ctx ppid rain wc ts s = Inr (r, s')" and "lm_get (policies s) pid = Some p"
  shows "\<exists>p'. lm_get (policies s') pid = Some p' \<and>
           (status p' = status p \<or> status p = ''pending'' \<and> status p' = ''claimed'')"
  using assms
  by (auto simp add: process_policy_claims_def Let_def split: option.splits if_splits)

lemma update_policy_status_status:
  assumes "update_policy_status ctx upid st s = Inr s'" and "lm_get (policies s) pid = Some p"
  shows "\<exists>p'. lm_get (policies s') pid = Some p' \<and>
           (status p' = status p \<or> status p' = st)"
  using assms
  by (auto simp add: update_policy_status_def split: option.splits if_splits)

lemma createPolicy_status:
  assumes "createPolicy ctx crop loc cov sd ed wp s = Inr (r, s')" and "lm_get (policies s) pid = Some p"
  shows "\<exists>p'. lm_get (policies s') pid = Some p' \<and>
           (status p' = status p \<or> status p' = ''pending'')"
  using assms
  by (auto simp add: createPolicy_def Let_def split: sum.splits if_splits)

lemma create_policy_status:
  assumes "create_policy ctx f crop cov prem thr station sd ed s = Inr (r, s')"
    and "lm_get (policies s) pid = Some p"
  shows "\<exists>p'. lm_get (policies s') pid = Some p' \<and>
           (status p' = status p \<or> status p' = ''pending'')"
  using assms
  by (auto simp add: create_policy_def Let_def split: sum.splits if_splits)

lemma weather_calls_keep_policies:
  "submitWeatherData ctx station t r h w cid s = Inr s' \<Longrightarrow> policies s' = policies s"
  "receive_weather ctx station ts fc s = Inr s' \<Longrightarrow> policies s' = policies s"
  "addOracle ctx oracle s = Inr s' \<Longrightarrow> policies s' = policies s"
  "removeOracle ctx oracle s = Inr s' \<Longrightarrow> policies s' = policies s"
  by (auto simp add: submitWeatherData_def receive_weather_def addOracle_def removeOracle_def
      checkAutomaticClaims_def updatePoliciesWithWeatherCid_def Let_def split: if_splits)

lemma map_sum_snd_Inr: "map_sum id snd x = Inr s' \<Longrightarrow> \<exists>r. x = Inr (r, s')"
  by (cases x) auto

lemma run_CreatePolicy_status:
  assumes "run_call ctx (CreatePolicy crop loc cov sd ed wp) s = Inr s'" and "lm_get (policies s) pid = Some p"
  shows "\<exists>p'. lm_get (policies s') pid = Some p' \<and>
           (status p' = status p \<or> status_move (CreatePolicy crop loc cov sd ed wp) (status p) (status p'))"
proof -
  from assms(1) obtain r where "createPolicy ctx crop loc cov sd ed wp s = Inr (r, s')"
    using map_sum_snd_Inr by fastforce
  from createPolicy_status [OF this assms(2)] show ?thesis
    by (simp add: status_move_def)
qed

lemma run_Create_policy_status:
  assumes "run_call ctx (Create_policy f crop cov prem thr station sd ed) s = Inr s'" and "lm_get (policies s) pid = Some p"
  shows "\<exists>p'. lm_get (policies s') pid = Some p' \<and>
           (status p' = status p \<or> status_move (Create_policy f crop cov prem thr station sd ed) (status p) (status p'))"
proof -
  from assms(1) obtain r where "create_policy ctx f crop cov prem thr station sd ed s = Inr (r, s')"
    using map_sum_snd_Inr by fastforce
  from create_policy_status [OF this assms(2)] show ?thesis
    by (simp add: status_move_def)
qed

lemma run_Ft_on_transfer_status:
  assumes "run_call ctx (Ft_on_transfer sender amount msg) s = Inr s'" and "lm_get (policies s) pid = Some p"
  shows "\<exists>p'. lm_get (policies s') pid = Some p' \<and>
           (status p' = status p \<or> status_move (Ft_on_transfer sender amount msg) (status p) (status p'))"
proof -
  from assms(1) obtain r where "ft_on_transfer ctx sender amount msg s = Inr (r, s')"
    using map_sum_snd_Inr by fastforce
  from ft_on_transfer_status [OF this assms(2)] show ?thesis
    by (simp add: status_move_def)
qed

lemma run_FileClaim_status:
  assumes "run_call ctx (FileClaim fpid rsn wd) s = Inr s'" and "lm_get (policies s) pid = Some p"
  shows "\<exists>p'. lm_get (policies s') pid = Some p' \<and>
           (status p' = status p \<or> status_move (FileClaim fpid rsn wd) (status p) (status p'))"
proof -
  from assms(1) obtain r where "fileClaim ctx fpid rsn wd s = Inr (r, s')"
    using map_sum_snd_Inr by fastforce
  from fileClaim_status [OF this assms(2)] show ?thesis
    by (simp add: status_move_def)
qed

lemma run_AdminTriggerPayout_status:
  assumes "run_call ctx (AdminTriggerPayout recipient amount cid) s = Inr s'" and "lm_get (policies s) pid = Some p"
  shows "\<exists>p'. lm_get (policies s') pid = Some p' \<and>
           (status p' = status p \<or> status_move (AdminTriggerPayout recipient amount cid) (status p) (status p'))"
proof -
  from assms(1) have "adminTriggerPayout ctx recipient amount cid s = Inr s'"
    by simp
  from adminTriggerPayout_status [OF this assms(2)] show ?thesis
    by (simp add: status_move_def)
qed

lemma run_Process_policy_claims_status:
  assumes "run_call ctx (Process_policy_claims ppid rain wc ts) s = Inr s'" and "lm_get (policies s) pid = Some p"
  shows "\<exists>p'. lm_get (policies s') pid = Some p' \<and>
           (status p' = status p \<or> status_move (Process_policy_claims ppid rain wc ts) (status p) (status p'))"
proof -
  from assms(1) obtain r where "process_policy_claims ctx ppid rain wc ts s = Inr (r, s')"
    using map_sum_snd_Inr by fastforce
  from process_policy_claims_status [OF this assms(2)] show ?thesis
    by (simp add: status_move_def)
qed

lemma run_Update_policy_status_status:
  assumes "run_call ctx (Update_policy_status upid st) s = Inr s'" and "lm_get (policies s) pid = Some p"
  shows "\<exists>p'. lm_get (policies s') pid = Some p' \<and>
           (status p' = status p \<or> status_move (Update_policy_status upid st) (status p) (status p'))"
proof -
  from assms(1) have "update_policy_status ctx upid st s = Inr s'"
    by simp
  from update_policy_status_status [OF this assms(2)] show ?thesis
    by (simp add: status_move_def)
qed

lemma run_SubmitWeatherData_status:
  assumes "run_call ctx (SubmitWeatherData station t r h w cid) s = Inr s'" and "lm_get (policies s) pid = Some p"
  shows "\<exists>p'. lm_get (policies s') pid = Some p' \<and>
           (status p' = status p \<or> status_move (SubmitWeatherData station t r h w cid) (status p) (status p'))"
  using assms weather_calls_keep_policies(1) [of ctx station t r h w cid s s'] by simp

lemma run_Receive_weather_status:
  assumes "run_call ctx (Receive_weather station ts fc) s = Inr s'" and "lm_get (policies s) pid = Some p"
  shows "\<exists>p'. lm_get (policies s') pid = Some p' \<and>
           (status p' = status p \<or> status_move (Receive_weather station ts fc) (status p) (status p'))"
  using assms weather_calls_keep_policies(2) [of ctx station ts fc s s'] by simp

lemma run_AddOracle_status:
  assumes "run_call ctx (AddOracle acct) s = Inr s'" and "lm_get (policies s) pid = Some p"
  shows "\<exists>p'. lm_get (policies s') pid = Some p' \<and>
           (status p' = status p \<or> status_move (AddOracle acct) (status p) (status p'))"
  using assms weather_calls_keep_policies(3) [of ctx acct s s'] by simp

lemma run_RemoveOracle_status:
  assumes "run_call ctx (RemoveOracle acct) s = Inr s'" and "lm_get (policies s) pid = Some p"
  shows "\<exists>p'. lm_get (policies s') pid = Some p' \<and>
           (status p' = status p \<or> status_move (RemoveOracle acct) (status p) (status p'))"
  using assms weather_calls_keep_policies(4) [of ctx acct s s'] by simp

lemma run_TriggerPayout_status:
  assumes "run_call ctx (TriggerPayout recipient amount) s = Inr s'" and "lm_get (policies s) pid = Some p"
  shows "\<exists>p'. lm_get (policies s') pid = Some p' \<and>
           (status p' = status p \<or> status_move (TriggerPayout recipient amount) (status p) (status p'))"
  using assms triggerPayout_keeps [of ctx recipient amount s s'] by simp

text \<open>
  C2, amended: no call removes a stored policy, and a call changes the status of a stored
  policy only as \<open>status_move\<close> lists: \<open>update_policy_status\<close> to the status it is given,
  whatever the old one; \<open>process_policy_claims\<close> from \<open>pending\<close> to \<open>claimed\<close>;
  \<open>ft_on_transfer\<close> to \<open>active\<close> only; \<open>fileClaim\<close> and \<open>adminTriggerPayout\<close> to
  \<open>claimed\<close> only; the two creating calls write \<open>pending\<close> only; every other call keeps
  every status. So \<open>update_policy_status\<close> is the only call that can store \<open>expired\<close>.
\<close>

theorem status_changes_by_call:
  assumes "run_call ctx c s = Inr s'" and "lm_get (policies s) pid = Some p"
  shows "\<exists>p'. lm_get (policies s') pid = Some p' \<and>
           (status p' = status p \<or> status_move c (status p) (status p'))"
proof (cases c)
  case (CreatePolicy crop loc cov sd ed wp)
  from assms show ?thesis
    unfolding CreatePolicy by (rule run_CreatePolicy_status)
next
  case (Create_policy f crop cov prem thr station sd ed)
  from assms show ?thesis
    unfolding Create_policy by (rule run_Create_policy_status)
next
  case (Ft_on_transfer sender amount msg)
  from assms show ?thesis
    unfolding Ft_on_transfer by (rule run_Ft_on_transfer_status)
next
  case (FileClaim fpid rsn wd)
  from assms show ?thesis
    unfolding FileClaim by (rule run_FileClaim_status)
next
  case (AdminTriggerPayout recipient amount cid)
  from assms show ?thesis
    unfolding AdminTriggerPayout by (rule run_AdminTriggerPayout_status)
next
  case (Process_policy_claims ppid rain wc ts)
  from assms show ?thesis
    unfolding Process_policy_claims by (rule run_Process_policy_claims_status)
next
  case (Update_policy_status upid st)
  from assms show ?thesis
    unfolding Update_policy_status by (rule run_Update_policy_status_status)
next
  case (SubmitWeatherData station t r h w cid)
  from assms show ?thesis
    unfolding SubmitWeatherData by (rule run_SubmitWeatherData_status)
next
  case (Receive_weather station ts fc)
  from assms show ?thesis
    unfolding Receive_weather by (rule run_Receive_weather_status)
next
  case (AddOracle acct)
  from assms show ?thesis
    unfolding AddOracle by (rule run_AddOracle_status)
next
  case (RemoveOracle acct)
  from assms show ?thesis
    unfolding RemoveOracle by (rule run_RemoveOracle_status)
next
  case (TriggerPayout recipient amount)
  from assms show ?thesis
    unfolding TriggerPayout by (rule run_TriggerPayout_status)
qed


theorem status_changes_by_call_witness:
  "run_call usdc_ctx (Ft_on_transfer ''farmer.testnet'' 5000000 (MsgObject (Some ''policy_1''))) created
     = Inr activated \<and>
   lm_get (policies created) ''policy_1'' = Some (wheat_policy ''farmer.testnet'' 5000000) \<and>
   status_of ''policy_1'' created = Some ''pending'' \<and>
   status_of ''policy_1'' activated = Some ''active'' \<and>
   (\<exists>p'. lm_get (policies activated) ''policy_1'' = Some p' \<and>
      (status p' = ''pending'' \<or>
       status_move (Ft_on_transfer ''farmer.testnet'' 5000000 (MsgObject (Some ''policy_1'')))
         ''pending'' (status p')))"
proof -
  have a: "run_call usdc_ctx (Ft_on_transfer ''farmer.testnet'' 5000000 (MsgObject (Some ''policy_1'')))
      created = Inr activated"
    by (simp add: activated_run)
  have b: "lm_get (policies created) ''policy_1'' = Some (wheat_policy ''farmer.testnet'' 5000000)"
    by (simp add: created_def)
  have c: "status (wheat_policy ''farmer.testnet'' 5000000) = ''pending''"
    by (simp add: wheat_policy_def)
  have d: "status_of ''policy_1'' created = Some ''pending''"
      "status_of ''policy_1'' activated = Some ''active''"
    by (simp_all add: status_of_def scene_defs)
  from status_changes_by_call [OF a b] a b c d show ?thesis
    by simp
qed

section \<open>Claim identifiers are never reused\<close>



























section \<open>What \<open>fileClaim\<close> computes\<close>

lemma executePayout_eval:
  assumes "lm_get (claims s) cid = Some cl" and "claim_status cl = Approved"
    and "lm_get (policies s) (claim_policyId cl) = Some p"
  shows "executePayout ctx cid s =
    (if predecessor ctx \<noteq> currentAccountId ctx then Inl OnlyContractCanTriggerPayouts
     else Inr (s\<lparr>payouts := (claim_farmer cl, claimAmount cl) # payouts s,
                claims := lm_set (claims s) cid (cl\<lparr>claim_status := Paid\<rparr>),
                policies := lm_set (policies s) (claim_policyId cl)
                  (p\<lparr>claimsPaid := claimsPaid p + claimAmount cl, status := ''claimed''\<rparr>),
                totalClaimsPaid := totalClaimsPaid s + claimAmount cl\<rparr>))"
  using assms by (simp add: executePayout_def triggerPayout_def Let_def)

lemma processClaimAutomatically_eval:
  assumes "lm_get (claims s) cid = Some cl"
    and "lm_get (policies s) (claim_policyId cl) = Some p"
  shows "processClaimAutomatically ctx cid s =
    (if \<not> tempBreach (weatherData cl) (weatherParameters p) \<and>
        \<not> rainBreach (weatherData cl) (weatherParameters p) then Inr s
     else executePayout ctx cid
       (s\<lparr>claims := lm_set (claims s) cid
          (cl\<lparr>claimAmount :=
                (coverageAmount p * payoutPercentage (weatherData cl) (weatherParameters p)) sdiv 100,
              claim_status := Approved\<rparr>)\<rparr>))"
  using assms
  by (simp add: processClaimAutomatically_def tempBreach_def rainBreach_def
      payoutPercentage_def Let_def)


lemma lm_set_set [simp]: "lm_set (lm_set m k v) k v' = lm_set m k v'"
  by (simp add: lm_set_def update_last)

lemma fileClaim_eval:
  fixes s :: State and ctx :: Context and wd :: WeatherData and rsn pid :: string
  assumes p: "lm_get (policies s) pid = Some p" and f: "farmer p = predecessor ctx"
    and a: "isActive p"
  defines "cid \<equiv> claim_key (totalClaims s + 1)"
  defines "amount \<equiv> (coverageAmount p * payoutPercentage wd (weatherParameters p)) sdiv 100"
  defines "claim \<equiv> \<lparr>claimId = cid, claim_policyId = pid, claim_farmer = predecessor ctx,
    claimAmount = 0, reason = rsn, weatherData = wd, claim_status = ClaimPending,
    claim_timestamp = decimal (blockTimestamp ctx)\<rparr>"
  shows "fileClaim ctx pid rsn wd s =
    (if \<not> tempBreach wd (weatherParameters p) \<and> \<not> rainBreach wd (weatherParameters p)
     then Inr (cid, s\<lparr>claims := lm_set (claims s) cid claim, totalClaims := totalClaims s + 1\<rparr>)
     else if predecessor ctx \<noteq> currentAccountId ctx then Inl OnlyContractCanTriggerPayouts
     else Inr (cid, s\<lparr>claims := lm_set (claims s) cid
                          (claim\<lparr>claimAmount := amount, claim_status := Paid\<rparr>),
                        totalClaims := totalClaims s + 1,
                        payouts := (predecessor ctx, amount) # payouts s,
                        policies := lm_set (policies s) pid
                          (p\<lparr>claimsPaid := claimsPaid p + amount, status := ''claimed''\<rparr>),
                        totalClaimsPaid := totalClaimsPaid s + amount\<rparr>))"
proof -
  let ?s1 = "s\<lparr>claims := lm_set (claims s) cid claim, totalClaims := totalClaims s + 1\<rparr>"
  let ?cl = "claim\<lparr>claimAmount := amount, claim_status := Approved\<rparr>"
  let ?s2 = "?s1\<lparr>claims := lm_set (claims ?s1) cid ?cl\<rparr>"
  have filed: "fileClaim ctx pid rsn wd s =
      (case processClaimAutomatically ctx cid ?s1 of Inl e \<Rightarrow> Inl e | Inr s2 \<Rightarrow> Inr (cid, s2))"
    using p f a unfolding fileClaim_def cid_def claim_def Let_def by simp
  have c1: "lm_get (claims ?s1) cid = Some claim" by simp
  have p1: "lm_get (policies ?s1) (claim_policyId claim) = Some p"
    using p by (simp add: claim_def)
  have "processClaimAutomatically ctx cid ?s1 =
    (if \<not> tempBreach wd (weatherParameters p) \<and> \<not> rainBreach wd (weatherParameters p)
     then Inr ?s1 else executePayout ctx cid ?s2)"
    using processClaimAutomatically_eval [OF c1 p1, of ctx]
    by (simp add: claim_def amount_def)
  moreover have c2: "lm_get (claims ?s2) cid = Some ?cl" by simp
  have p2: "lm_get (policies ?s2) (claim_policyId ?cl) = Some p"
    using p by (simp add: claim_def)
  have "executePayout ctx cid ?s2 =
    (if predecessor ctx \<noteq> currentAccountId ctx then Inl OnlyContractCanTriggerPayouts
     else Inr (s\<lparr>claims := lm_set (claims s) cid
                          (claim\<lparr>claimAmount := amount, claim_status := Paid\<rparr>),
                    totalClaims := totalClaims s + 1,
                    payouts := (predecessor ctx, amount) # payouts s,
                    policies := lm_set (policies s) pid
                      (p\<lparr>claimsPaid := claimsPaid p + amount, status := ''claimed''\<rparr>),
                    totalClaimsPaid := totalClaimsPaid s + amount\<rparr>))"
    using executePayout_eval [OF c2 _ p2, of ctx]
    by (simp add: claim_def)
  ultimately show ?thesis
    using filed by simp
qed

lemmas own_defs = own_created_def own_activated_def heat_claim_def own_paid_def
  own_paid_twice_def

lemmas breach_defs = tempBreach_def rainBreach_def payoutPercentage_def signed_divide_int_def
  claim_key_def

lemma decimal_Suc_Suc_0 [simp]: "decimal (Suc (Suc 0)) = ''2''"
  by (simp add: decimal.simps digit_def char_of_def bit_0)

lemma decimal_stamp [simp]: "decimal 1700000003 = ''1700000003''"
  by (simp add: decimal.simps digit_def char_of_def bit_0)

lemma own_created_run:
  "createPolicy self_ctx ''wheat'' temperate 100000000 (Some window_start) (Some window_end)
     thresholds deployed = Inr (''policy_1'', own_created)"
  by (simp add: createPolicy_def validatePolicyInputs_def validCrops_def policy_key_def
      premium_defs scene_defs own_defs Let_def)

lemma own_activated_run:
  "ft_on_transfer usdc_ctx ''agriguard.testnet'' 5000000 (MsgObject (Some ''policy_1'')) own_created
     = Inr (0, own_activated)"
  by (simp add: ft_on_transfer_def scene_defs own_defs)

lemma own_paid_run:
  "fileClaim self_ctx ''policy_1'' ''heat'' hot_and_dry own_activated = Inr (''claim_1'', own_paid)"
proof -
  have "lm_get (policies own_activated) ''policy_1'' = Some ((wheat_policy ''agriguard.testnet'' 5000000)
       \<lparr>premiumPaid := 5000000, status := ''active'', isActive := True\<rparr>)"
    by (simp add: own_activated_def)
  from fileClaim_eval [OF this, where ctx = self_ctx and wd = hot_and_dry and rsn = "''heat''"] show ?thesis
    by (simp add: breach_defs scene_defs own_defs)
qed


lemma own_paid_twice_run:
  "fileClaim self_ctx ''policy_1'' ''again'' hot_and_dry own_paid = Inr (''claim_2'', own_paid_twice)"
proof -
  have "lm_get (policies own_paid) ''policy_1'' = Some ((wheat_policy ''agriguard.testnet'' 5000000)
       \<lparr>premiumPaid := 5000000, status := ''claimed'', isActive := True, claimsPaid := 60000000\<rparr>)"
    by (simp add: own_paid_def)
  from fileClaim_eval [OF this, where ctx = self_ctx and wd = hot_and_dry and rsn = "''again''"] show ?thesis
    by (simp add: breach_defs scene_defs own_defs)
qed



section \<open>A claim is paid once\<close>



section \<open>Automatic evaluation of a filed claim\<close>

text \<open>
  C4 says that a claim filed on a hot and dry observation (temperature 45 against
  \<open>[5, 30]\<close>, rainfall 50 against \<open>[300, 1000]\<close>, coverage 100,000,000) is evaluated to
  60,000,000 and the policy becomes Claimed. The evaluation does compute 60 per cent, the
  maximum of 50 and 60 (\<open>fileClaim_eval\<close>), but the payout it then starts goes through
  \<open>triggerPayout\<close>, which asserts that the caller of the running call is the contract
  account. For the farmer who owns the policy it is not: the whole \<open>fileClaim\<close> aborts,
  no claim is stored and the policy stays Active.
\<close>

theorem farmer_claim_payout_aborts:
  "status_of ''policy_1'' activated = Some ''active'' \<and>
   payoutPercentage hot_and_dry thresholds = 60 \<and>
   fileClaim farmer_ctx ''policy_1'' ''heat'' hot_and_dry activated
     = Inl OnlyContractCanTriggerPayouts \<and>
   perform (farmer_ctx, FileClaim ''policy_1'' ''heat'' hot_and_dry) activated = activated \<and>
   claims activated = []"
proof -
  have p: "lm_get (policies activated) ''policy_1'' = Some ((wheat_policy ''farmer.testnet'' 5000000)
       \<lparr>premiumPaid := 5000000, status := ''active'', isActive := True\<rparr>)"
    by (simp add: activated_def)
  from fileClaim_eval [OF p, where ctx = farmer_ctx and wd = hot_and_dry and rsn = "''heat''"]
  have f: "fileClaim farmer_ctx ''policy_1'' ''heat'' hot_and_dry activated
     = Inl OnlyContractCanTriggerPayouts"
    by (simp add: breach_defs scene_defs)
  have "payoutPercentage hot_and_dry thresholds = 60"
    by (simp add: breach_defs scene_defs)
  with f show ?thesis
    by (simp add: perform_def status_of_def scene_defs)
qed

section \<open>Filing a claim on a policy that is no longer Active\<close>

text \<open>
  C5 says that \<open>fileClaim\<close> fails with \<open>PolicyNotActive\<close> for every policy whose status
  is not Active. The source tests the flag \<open>isActive\<close>, which settlement sets and nothing
  clears: \<open>executePayout\<close> sets the status to \<open>claimed\<close> and leaves the flag. On the
  policy of the contract account, paid once and Claimed, a second \<open>fileClaim\<close> succeeds
  and pays 60,000,000 again. A farmer's policy that \<open>update_policy_status\<close> has marked
  \<open>expired\<close> accepts a claim as well.
\<close>

theorem claimed_policy_accepts_claim:
  "run (take 3 own_calls) deployed = own_paid \<and>
   status_of ''policy_1'' own_paid = Some ''claimed'' \<and>
   totalClaimsPaid own_paid = 60000000 \<and>
   fileClaim self_ctx ''policy_1'' ''again'' hot_and_dry own_paid
     = Inr (''claim_2'', own_paid_twice) \<and>
   totalClaimsPaid own_paid_twice = 120000000 \<and>
   perform (farmer_ctx, Update_policy_status ''policy_1'' ''expired'') activated = marked_expired \<and>
   status_of ''policy_1'' marked_expired = Some ''expired'' \<and>
   map_sum id fst (fileClaim farmer_ctx ''policy_1'' ''late'' mild marked_expired)
     = Inr ''claim_1''"
proof -
  have r: "run (take 3 own_calls) deployed = own_paid"
    by (simp add: own_calls_def perform_def own_created_run own_activated_run own_paid_run)
  have s: "perform (farmer_ctx, Update_policy_status ''policy_1'' ''expired'') activated
      = marked_expired"
    by (simp add: perform_def update_policy_status_def activated_def marked_expired_def)
  have p: "lm_get (policies marked_expired) ''policy_1'' = Some ((wheat_policy ''farmer.testnet'' 5000000)
       \<lparr>premiumPaid := 5000000, status := ''expired'', isActive := True\<rparr>)"
    by (simp add: marked_expired_def)
  from fileClaim_eval [OF p, where ctx = farmer_ctx and wd = mild and rsn = "''late''"]
  have f: "map_sum id fst (fileClaim farmer_ctx ''policy_1'' ''late'' mild marked_expired)
      = Inr ''claim_1''"
    by (simp add: breach_defs scene_defs marked_expired_def)
  from p have e: "status_of ''policy_1'' marked_expired = Some ''expired''"
    by (simp add: status_of_def)
  have o: "status_of ''policy_1'' own_paid = Some ''claimed''"
      "totalClaimsPaid own_paid = 60000000" "totalClaimsPaid own_paid_twice = 120000000"
    by (simp_all add: status_of_def own_defs)
  from r s f e o own_paid_twice_run show ?thesis
    by simp
qed

section \<open>The premium of a new policy\<close>

lemma crop_multiplier_values:
  "cropRiskMultiplier crop \<in> {1, 12 / 10, 15 / 10, 11 / 10, 13 / 10, 14 / 10}"
  by (simp add: cropRiskMultiplier_def cropRiskMultipliers_def split: option.splits if_splits)

lemma geo_risk_values:
  "calculateGeographicalRisk loc \<in> {13 / 10, 12 / 10, 1, 11 / 10}"
  by (simp add: calculateGeographicalRisk_def Let_def)

lemma rate_applied:
  assumes "0 \<le> cov" and "0 \<le> k"
  shows "(cov * k) sdiv 10000 = \<lfloor>(of_int k / 10000 :: rat) * of_int cov\<rfloor>"
proof -
  have "(cov * k) sdiv 10000 = (cov * k) div 10000"
    using assms by (simp add: signed_divide_int_def sgn_if zero_less_mult_iff)
  also have "\<dots> = \<lfloor>(of_int (cov * k) :: rat) / of_int 10000\<rfloor>"
    by (simp only: floor_divide_of_int_eq)
  also have "(of_int (cov * k) :: rat) / of_int 10000 = (of_int k / 10000) * of_int cov"
    by simp
  finally show ?thesis .
qed

lemma calculatePremium_is_spec_premium:
  assumes "0 \<le> cov"
  shows "calculatePremium cov crop loc = spec_premium cov crop loc"
proof -
  define m where "m = cropRiskMultiplier crop"
  define g where "g = calculateGeographicalRisk loc"
  define k where "k = \<lfloor>of_int \<lfloor>of_int DEFAULT_PREMIUM_RATE * m\<rfloor> * g\<rfloor>"
  have mv: "m \<in> {1, 12 / 10, 15 / 10, 11 / 10, 13 / 10, 14 / 10}"
    unfolding m_def by (rule crop_multiplier_values)
  have gv: "g \<in> {13 / 10, 12 / 10, 1, 11 / 10}"
    unfolding g_def by (rule geo_risk_values)
  have exact: "of_int k = m * g * 500 \<and> 0 \<le> k"
    using mv gv unfolding k_def DEFAULT_PREMIUM_RATE_def
    by (elim insertE emptyE; hypsubst; simp)
  then have pos: "0 \<le> k" by simp
  have code: "calculatePremium cov crop loc = max MIN_PREMIUM_USDC ((cov * k) sdiv 10000)"
    by (simp add: calculatePremium_def cropRiskMultiplier_def m_def g_def k_def Let_def
        BASIS_POINTS_def max_def)
  have "(cov * k) sdiv 10000 = \<lfloor>(of_int k / 10000 :: rat) * of_int cov\<rfloor>"
    using assms pos by (rule rate_applied)
  also have "(of_int k / 10000 :: rat) * of_int cov = m * g * (500 / 10000) * of_int cov"
    using exact by simp
  finally show ?thesis
    using code
    by (simp add: spec_premium_def m_def g_def DEFAULT_PREMIUM_RATE_def BASIS_POINTS_def)
qed


lemma validated_coverage:
  "validatePolicyInputs ctx crop loc cov sd ed wp = Inr u \<Longrightarrow> MIN_PREMIUM_USDC \<le> cov"
  by (simp add: validatePolicyInputs_def split: if_splits)

lemma wheat_premium_temperate:
  assumes "toLowerCase crop = ''wheat''" and "47 / 2 \<le> \<bar>lat loc\<bar>" and "\<bar>lat loc\<bar> < 35"
  shows "calculatePremium 100000000 crop loc = 5000000"
  using assms
  by (simp add: calculatePremium_def calculateGeographicalRisk_def cropRiskMultipliers_def
      DEFAULT_PREMIUM_RATE_def BASIS_POINTS_def MIN_PREMIUM_USDC_def signed_divide_int_def Let_def)

text \<open>What \<open>createPolicy\<close> stores: a policy that is Pending, not active, with zero premium
  paid and the premium of \<open>calculatePremium\<close>, which is \<open>spec_premium\<close>. Where the crop is
  wheat, the coverage 100,000,000 and the geographic multiplier 1, that premium is
  5,000,000 and its exact settlement activates the policy.\<close>

lemma created_policy_premium:
  assumes "createPolicy ctx crop loc cov sd ed wp s = Inr (pid, s')"
  shows "\<exists>p. lm_get (policies s') pid = Some p \<and> status p = ''pending'' \<and>
           premiumPaid p = 0 \<and> \<not> isActive p \<and>
           premium p = calculatePremium cov crop loc \<and>
           premium p = spec_premium cov crop loc \<and>
           (toLowerCase crop = ''wheat'' \<and> cov = 100000000 \<and>
            47 / 2 \<le> \<bar>lat loc\<bar> \<and> \<bar>lat loc\<bar> < 35 \<longrightarrow>
              premium p = 5000000 \<and>
              (\<forall>ctx'. predecessor ctx' = USDC_CONTRACT \<longrightarrow>
                 (\<exists>s'' p'. ft_on_transfer ctx' (predecessor ctx) 5000000 (MsgObject (Some pid)) s'
                      = Inr (0, s'') \<and>
                    lm_get (policies s'') pid = Some p' \<and> status p' = ''active'' \<and>
                    isActive p' \<and> premiumPaid p' = 5000000)))"
proof -
  from assms obtain u where v: "validatePolicyInputs ctx crop loc cov sd ed wp = Inr u"
    by (cases "validatePolicyInputs ctx crop loc cov sd ed wp") (simp_all add: createPolicy_def)
  from validated_coverage [OF v] have "0 \<le> cov"
    by (simp add: MIN_PREMIUM_USDC_def)
  then have spec: "calculatePremium cov crop loc = spec_premium cov crop loc"
    by (rule calculatePremium_is_spec_premium)
  let ?p = "\<lparr>policyId = pid, farmer = predecessor ctx, cropType = crop,
               farmLocation = loc, coverageAmount = cov, premium = calculatePremium cov crop loc,
               startDate = sd, endDate = ed, weatherParameters = wp,
               isActive = False, claimsPaid = 0, premiumPaid = 0, status = ''pending'',
               weatherDataCids = [], payoutTrigger = None\<rparr>"
  from assms v have s': "s' = s\<lparr>policies := lm_set (policies s) pid ?p,
      totalPolicies := totalPolicies s + 1\<rparr>"
    by (auto simp add: createPolicy_def Let_def)
  then have g: "lm_get (policies s') pid = Some ?p"
    by simp
  have settle: "\<exists>s'' p'. ft_on_transfer ctx' (predecessor ctx) 5000000 (MsgObject (Some pid)) s'
        = Inr (0, s'') \<and>
      lm_get (policies s'') pid = Some p' \<and> status p' = ''active'' \<and>
      isActive p' \<and> premiumPaid p' = 5000000"
    if "predecessor ctx' = USDC_CONTRACT" and "calculatePremium cov crop loc = 5000000" for ctx'
    using that g by (simp add: ft_on_transfer_def Let_def)
  from g spec settle wheat_premium_temperate [of crop loc] show ?thesis
    by auto
qed

lemma created_policy_premium_temperate:
  "createPolicy farmer_ctx ''wheat'' temperate 100000000 (Some window_start) (Some window_end)
     thresholds deployed = Inr (''policy_1'', created) \<and>
   toLowerCase ''wheat'' = ''wheat'' \<and> 47 / 2 \<le> \<bar>lat temperate\<bar> \<and> \<bar>lat temperate\<bar> < 35 \<and>
   predecessor usdc_ctx = USDC_CONTRACT \<and>
   (\<exists>p. lm_get (policies created) ''policy_1'' = Some p \<and> status p = ''pending'' \<and>
      premiumPaid p = 0 \<and> premium p = 5000000 \<and>
      spec_premium 100000000 ''wheat'' temperate = 5000000) \<and>
   (\<exists>s'' p'. ft_on_transfer usdc_ctx ''farmer.testnet'' 5000000 (MsgObject (Some ''policy_1'')) created
        = Inr (0, s'') \<and>
      lm_get (policies s'') ''policy_1'' = Some p' \<and> status p' = ''active'' \<and>
      premiumPaid p' = 5000000)"
proof -
  have w: "toLowerCase ''wheat'' = ''wheat''" "47 / 2 \<le> \<bar>lat temperate\<bar>" "\<bar>lat temperate\<bar> < 35"
    by (simp_all add: toLowerCase_def lower_char_def temperate_def)
  have u: "predecessor usdc_ctx = USDC_CONTRACT" "predecessor farmer_ctx = ''farmer.testnet''"
    by (simp_all add: scene_defs)
  from created_policy_premium [OF created_run] w u created_run show ?thesis
    by auto
qed

text \<open>
  C6 says that the wheat policy with coverage 100,000,000 has a premium of 5,000,000, 5 per
  cent of the coverage, and that settling exactly that amount makes it Active with
  \<open>premiumPaid = 5,000,000\<close>. That policy is the one of the repository's sandbox test,
  whose farm lies at latitude 40.7128; the test pays 5,000,000 and expects the policy
  active. The source multiplies the rate by 1.1 at that latitude: the premium it stores is
  5,500,000, the settlement of 5,000,000 is returned in full, and the policy stays Pending
  with nothing paid.
\<close>

theorem sandbox_wheat_settlement_refunded:
  "calculatePremium 100000000 ''wheat'' new_york = 5500000 \<and>
   createPolicy farmer_ctx ''wheat'' new_york 100000000 (Some window_start) (Some window_end)
     thresholds deployed = Inr (''policy_1'', ny_created) \<and>
   ft_on_transfer usdc_ctx ''farmer.testnet'' 5000000 (MsgObject (Some ''policy_1'')) ny_created
     = Inr (5000000, ny_created) \<and>
   status_of ''policy_1'' ny_created = Some ''pending''"
proof -
  have a: "calculatePremium 100000000 ''wheat'' new_york = 5500000"
    by (simp add: premium_defs new_york_def Let_def)
  have b: "createPolicy farmer_ctx ''wheat'' new_york 100000000 (Some window_start) (Some window_end)
     thresholds deployed = Inr (''policy_1'', ny_created)"
    by (simp add: createPolicy_def validatePolicyInputs_def validCrops_def policy_key_def
      premium_defs scene_defs ny_created_def Let_def)
  have c: "ft_on_transfer usdc_ctx ''farmer.testnet'' 5000000 (MsgObject (Some ''policy_1'')) ny_created
     = Inr (5000000, ny_created)"
    by (simp add: ft_on_transfer_def scene_defs ny_created_def)
  have d: "status_of ''policy_1'' ny_created = Some ''pending''"
    by (simp add: status_of_def scene_defs ny_created_def)
  from a b c d show ?thesis by simp
qed

section \<open>Validation of the coverage window\<close>

lemma validatePolicyInputs_accepts_iff:
  "validatePolicyInputs ctx crop loc cov sd ed wp = Inr () \<longleftrightarrow>
     MIN_PREMIUM_USDC \<le> cov \<and> cov \<le> MAX_COVERAGE_USDC \<and>
     toLowerCase crop \<in> set validCrops \<and>
     - 90 \<le> lat loc \<and> lat loc \<le> 90 \<and> - 180 \<le> lng loc \<and> lng loc \<le> 180 \<and>
     minTemp wp < maxTemp wp \<and> minRainfall wp < maxRainfall wp \<and>
     - 50 \<le> minTemp wp \<and> maxTemp wp \<le> 60 \<and> 0 \<le> minRainfall wp \<and> maxRainfall wp \<le> 5000 \<and>
     (\<exists>start en. sd = Some start \<and> ed = Some en \<and> now ctx \<le> start \<and>
        2592000000 \<le> en - start \<and> en - start \<le> 31536000000)"
  by (auto simp add: validatePolicyInputs_def split: option.splits)

lemma createPolicy_rejects_iff:
  "createPolicy ctx crop loc cov sd ed wp s = Inl e \<longleftrightarrow>
     validatePolicyInputs ctx crop loc cov sd ed wp = Inl e"
  by (simp add: createPolicy_def Let_def split: sum.splits)

text \<open>
  C7 says that \<open>createPolicy\<close> rejects a coverage window whose start is not strictly in
  the future, a start equal to the current time included. The source asserts
  \<open>start.getTime() >= now.getTime()\<close> under the message "Policy start date must be in the
  future": a start equal to the current time passes, and the policy is created. The other
  constraints are as \<open>validatePolicyInputs_accepts_iff\<close> lists them.
\<close>

theorem start_equal_to_now_accepted:
  "now opening_ctx = window_start \<and>
   validatePolicyInputs opening_ctx ''wheat'' temperate 100000000 (Some window_start)
     (Some window_end) thresholds = Inr () \<and>
   createPolicy opening_ctx ''wheat'' temperate 100000000 (Some window_start) (Some window_end)
     thresholds deployed = Inr (''policy_1'', created)"
  by (simp add: createPolicy_def validatePolicyInputs_def validCrops_def policy_key_def
      premium_defs scene_defs opening_ctx_def Let_def)

section \<open>Policies by station\<close>

lemma station_created_run:
  "create_policy farmer_ctx ''farmer2.testnet'' ''Wheat'' 3000 150 30 ''WXM_STATION_001''
     (Some 1711929600000) (Some 1725062400000) deployed = Inr (''policy_0'', station_created)"
  by (simp add: create_policy_def policy_key_def station_created_def station_policy_def
      scene_defs Let_def)

lemma station_active_run:
  "ft_on_transfer usdc_ctx ''farmer2.testnet'' 150 (MsgObject (Some ''policy_0'')) station_created
     = Inr (0, station_active)"
  by (simp add: ft_on_transfer_def station_created_def station_active_def station_policy_def
      scene_defs)

lemma get_policies_throws: "get_policies station_id st limit s = Inl PoliciesNotIterable"
  by (simp add: get_policies_def)

text \<open>
  C8 says that \<open>get_policies\<close> returns exactly the stored policies that match its filters,
  so that a policy created for a station and since activated is found by querying that
  station with status Active. The query returns nothing of the kind: its loop over the
  \<open>LookupMap\<close> throws for every argument. Here the policy of the set-up script, created for
  \<open>WXM_STATION_001\<close> and activated, is stored and Active, and the query by its station
  and status, like the query with no filter, ends in the TypeError.
\<close>

theorem station_query_throws:
  "run [(farmer_ctx, Create_policy ''farmer2.testnet'' ''Wheat'' 3000 150 30 ''WXM_STATION_001''
           (Some 1711929600000) (Some 1725062400000)),
        (usdc_ctx, Ft_on_transfer ''farmer2.testnet'' 150 (MsgObject (Some ''policy_0'')))]
     deployed = station_active \<and>
   status_of ''policy_0'' station_active = Some ''active'' \<and>
   get_policies (Some ''WXM_STATION_001'') (Some ''active'') None station_active
     = Inl PoliciesNotIterable \<and>
   get_policies None None None station_active = Inl PoliciesNotIterable"
proof -
  have r: "run [(farmer_ctx, Create_policy ''farmer2.testnet'' ''Wheat'' 3000 150 30 ''WXM_STATION_001''
           (Some 1711929600000) (Some 1725062400000)),
        (usdc_ctx, Ft_on_transfer ''farmer2.testnet'' 150 (MsgObject (Some ''policy_0'')))]
     deployed = station_active"
    by (simp add: perform_def station_created_run station_active_run)
  have t: "status_of ''policy_0'' station_active = Some ''active''"
    by (simp add: status_of_def station_active_def)
  from r t show ?thesis
    by (simp add: get_policies_throws)
qed

end
